theory Spec2Isabelle
  imports Complex_Main "HOL-Library.Multiset"
begin

text \<open>
  The exam-paper services of the backend, \<open>ExamPaperService\<close> and
  \<open>ManualAssessmentService\<close>, as functions on an explicit store: each operation takes the
  store and returns the store it leaves together with its result or the exception it
  raises; an upload may also never settle. The definitions come first, the properties
  after them.
\<close>

section \<open>JavaScript values\<close>

text \<open>
  A JavaScript string is a sequence of UTF-16 code units; a code unit is modelled as a
  natural number. \<open>js\<close> turns an ASCII literal into such a string.
\<close>

type_synonym jsstring = "nat list"

definition js :: "string \<Rightarrow> jsstring" where
  "js s = map of_char s"

text \<open>
  The values a request body can carry. A finite number is the real it denotes (both zeros
  are \<open>JSNumber 0\<close>); \<open>JSObject\<close> stands for any object (array, Date, ...), named by
  an opaque handle.
\<close>

datatype jsvalue =
    JSUndefined
  | JSNull
  | JSBool bool
  | JSNumber real
  | JSNaN
  | JSInfinity bool
  | JSString jsstring
  | JSObject nat

text \<open>\<open>Boolean(v)\<close>, the truthiness that \<open>||\<close> and \<open>filter(Boolean)\<close> test.\<close>

fun Boolean :: "jsvalue \<Rightarrow> bool" where
  "Boolean JSUndefined = False"
| "Boolean JSNull = False"
| "Boolean (JSBool b) = b"
| "Boolean (JSNumber x) = (x \<noteq> 0)"
| "Boolean JSNaN = False"
| "Boolean (JSInfinity _) = True"
| "Boolean (JSString s) = (s \<noteq> [])"
| "Boolean (JSObject _) = True"

text \<open>\<open>a || b\<close>\<close>

definition js_or :: "jsvalue \<Rightarrow> jsvalue \<Rightarrow> jsvalue" where
  "js_or a b = (if Boolean a then a else b)"

text \<open>
  The result of \<open>JSON.parse\<close>. A number keeps its literal text; an object keeps its
  members in source order.
\<close>

datatype json =
    JNull
  | JBool bool
  | JNumber jsstring
  | JString jsstring
  | JArray "json list"
  | JObject "(jsstring \<times> json) list"

section \<open>String operations of JavaScript\<close>

text \<open>
  The code units \<open>String.prototype.trim\<close> removes: the white space and line terminators
  of ECMAScript.
\<close>

definition js_whitespace :: "nat \<Rightarrow> bool" where
  "js_whitespace c \<longleftrightarrow>
     c = 9 \<or> c = 10 \<or> c = 11 \<or> c = 12 \<or> c = 13 \<or> c = 32 \<or> c = 160 \<or> c = 5760 \<or>
     (8192 \<le> c \<and> c \<le> 8202) \<or> c = 8232 \<or> c = 8233 \<or> c = 8239 \<or> c = 8287 \<or>
     c = 12288 \<or> c = 65279"

definition trimStart :: "jsstring \<Rightarrow> jsstring" where
  "trimStart s = dropWhile js_whitespace s"

definition trim :: "jsstring \<Rightarrow> jsstring" where
  "trim s = rev (dropWhile js_whitespace (rev (dropWhile js_whitespace s)))"

text \<open>\<open>s.replace(/\\/g, '')\<close>: every backslash (code unit 92) removed.\<close>

definition replace_backslashes :: "jsstring \<Rightarrow> jsstring" where
  "replace_backslashes s = filter (\<lambda>c. c \<noteq> 92) s"

definition startsWith :: "jsstring \<Rightarrow> jsstring \<Rightarrow> bool" where
  "startsWith s p \<longleftrightarrow> take (length p) s = p"

definition endsWith :: "jsstring \<Rightarrow> jsstring \<Rightarrow> bool" where
  "endsWith s p \<longleftrightarrow> length p \<le> length s \<and> drop (length s - length p) s = p"

text \<open>\<open>s.split(':')\<close>; \<open>split_at sep cur s\<close> carries the piece being read.\<close>

fun split_at :: "nat \<Rightarrow> jsstring \<Rightarrow> jsstring \<Rightarrow> jsstring list" where
  "split_at sep cur [] = [cur]"
| "split_at sep cur (c # cs) =
     (if c = sep then cur # split_at sep [] cs else split_at sep (cur @ [c]) cs)"

definition split_colon :: "jsstring \<Rightarrow> jsstring list" where
  "split_colon s = split_at 58 [] s"

text \<open>
  \<open>parseInt(s)\<close> without a radix: leading white space, a sign, \<open>0x\<close> for base 16, the
  longest run of digits; \<open>None\<close> is \<open>NaN\<close>. The value is exact, as the number is for
  magnitudes below \<open>2^53\<close>.
\<close>

definition digit_value :: "nat \<Rightarrow> nat option" where
  "digit_value c =
     (if 48 \<le> c \<and> c \<le> 57 then Some (c - 48)
      else if 97 \<le> c \<and> c \<le> 102 then Some (c - 87)
      else if 65 \<le> c \<and> c \<le> 70 then Some (c - 55)
      else None)"

definition is_digit_of :: "nat \<Rightarrow> nat \<Rightarrow> bool" where
  "is_digit_of radix c \<longleftrightarrow> (case digit_value c of None \<Rightarrow> False | Some d \<Rightarrow> d < radix)"

definition digits_value :: "nat \<Rightarrow> jsstring \<Rightarrow> nat" where
  "digits_value radix ds = foldl (\<lambda>acc c. acc * radix + the (digit_value c)) 0 ds"

definition parseInt_unsigned :: "jsstring \<Rightarrow> nat option" where
  "parseInt_unsigned s =
     (let hex = (take 2 s = [48, 120] \<or> take 2 s = [48, 88]);
          radix = (if hex then 16 else 10);
          ds = takeWhile (is_digit_of radix) (if hex then drop 2 s else s)
      in if ds = [] then None else Some (digits_value radix ds))"

definition parseInt :: "jsstring \<Rightarrow> int option" where
  "parseInt s =
     (case trimStart s of
        [] \<Rightarrow> None
      | c # cs \<Rightarrow>
          if c = 45 then map_option (\<lambda>n. - int n) (parseInt_unsigned cs)
          else if c = 43 then map_option int (parseInt_unsigned cs)
          else map_option int (parseInt_unsigned (c # cs)))"

section \<open>\<open>JSON.parse\<close>\<close>

datatype token =
    TLBracket | TRBracket | TLBrace | TRBrace | TComma | TColon
  | TString jsstring | TNumber jsstring | TTrue | TFalse | TNull

datatype numstate = NMinus | NZero | NInt | NDot | NFrac | NExp | NExpSign | NExpDigits

datatype lexstate =
    LStart
  | LString jsstring
  | LEscape jsstring
  | LUnicode jsstring "nat list"
  | LNumber numstate jsstring
  | LLiteral jsstring token

definition is_digit :: "nat \<Rightarrow> bool" where
  "is_digit c \<longleftrightarrow> 48 \<le> c \<and> c \<le> 57"

text \<open>The number grammar \<open>-? (0 | [1-9][0-9]*) (. [0-9]+)? ([eE] [+-]? [0-9]+)?\<close>.\<close>

fun num_step :: "numstate \<Rightarrow> nat \<Rightarrow> numstate option" where
  "num_step NMinus c = (if c = 48 then Some NZero else if is_digit c then Some NInt else None)"
| "num_step NZero c =
     (if c = 46 then Some NDot else if c = 101 \<or> c = 69 then Some NExp else None)"
| "num_step NInt c =
     (if is_digit c then Some NInt else if c = 46 then Some NDot
      else if c = 101 \<or> c = 69 then Some NExp else None)"
| "num_step NDot c = (if is_digit c then Some NFrac else None)"
| "num_step NFrac c =
     (if is_digit c then Some NFrac else if c = 101 \<or> c = 69 then Some NExp else None)"
| "num_step NExp c =
     (if c = 43 \<or> c = 45 then Some NExpSign else if is_digit c then Some NExpDigits else None)"
| "num_step NExpSign c = (if is_digit c then Some NExpDigits else None)"
| "num_step NExpDigits c = (if is_digit c then Some NExpDigits else None)"

fun num_final :: "numstate \<Rightarrow> bool" where
  "num_final NZero = True"
| "num_final NInt = True"
| "num_final NFrac = True"
| "num_final NExpDigits = True"
| "num_final _ = False"

text \<open>A code unit read between two tokens: the tokens it completes and the next state.\<close>

definition lex_start :: "nat \<Rightarrow> (token list \<times> lexstate) option" where
  "lex_start c =
     (if c = 9 \<or> c = 10 \<or> c = 13 \<or> c = 32 then Some ([], LStart)
      else if c = 91 then Some ([TLBracket], LStart)
      else if c = 93 then Some ([TRBracket], LStart)
      else if c = 123 then Some ([TLBrace], LStart)
      else if c = 125 then Some ([TRBrace], LStart)
      else if c = 44 then Some ([TComma], LStart)
      else if c = 58 then Some ([TColon], LStart)
      else if c = 34 then Some ([], LString [])
      else if c = 45 then Some ([], LNumber NMinus [c])
      else if c = 48 then Some ([], LNumber NZero [c])
      else if is_digit c then Some ([], LNumber NInt [c])
      else if c = 116 then Some ([], LLiteral [114, 117, 101] TTrue)
      else if c = 102 then Some ([], LLiteral [97, 108, 115, 101] TFalse)
      else if c = 110 then Some ([], LLiteral [117, 108, 108] TNull)
      else None)"

definition escape_value :: "nat \<Rightarrow> nat option" where
  "escape_value c =
     (if c = 34 \<or> c = 92 \<or> c = 47 then Some c
      else if c = 98 then Some 8 else if c = 102 then Some 12 else if c = 110 then Some 10
      else if c = 114 then Some 13 else if c = 116 then Some 9 else None)"

fun lex_step :: "lexstate \<Rightarrow> nat \<Rightarrow> (token list \<times> lexstate) option" where
  "lex_step LStart c = lex_start c"
| "lex_step (LString acc) c =
     (if c = 34 then Some ([TString acc], LStart)
      else if c = 92 then Some ([], LEscape acc)
      else if c < 32 then None
      else Some ([], LString (acc @ [c])))"
| "lex_step (LEscape acc) c =
     (if c = 117 then Some ([], LUnicode acc [])
      else (case escape_value c of
              None \<Rightarrow> None
            | Some v \<Rightarrow> Some ([], LString (acc @ [v]))))"
| "lex_step (LUnicode acc hs) c =
     (case digit_value c of
        None \<Rightarrow> None
      | Some h \<Rightarrow>
          if length hs = 3
          then Some ([], LString (acc @ [foldl (\<lambda>v d. v * 16 + d) 0 (hs @ [h])]))
          else Some ([], LUnicode acc (hs @ [h])))"
| "lex_step (LNumber ns txt) c =
     (case num_step ns c of
        Some ns' \<Rightarrow> Some ([], LNumber ns' (txt @ [c]))
      | None \<Rightarrow>
          if num_final ns
          then (case lex_start c of
                  None \<Rightarrow> None
                | Some (ts, st) \<Rightarrow> Some (TNumber txt # ts, st))
          else None)"
| "lex_step (LLiteral [] t) c = None"
| "lex_step (LLiteral (r # rs) t) c =
     (if c \<noteq> r then None
      else if rs = [] then Some ([t], LStart)
      else Some ([], LLiteral rs t))"

fun lex_end :: "lexstate \<Rightarrow> token list option" where
  "lex_end LStart = Some []"
| "lex_end (LNumber ns txt) = (if num_final ns then Some [TNumber txt] else None)"
| "lex_end _ = None"

fun lex :: "lexstate \<Rightarrow> jsstring \<Rightarrow> token list option" where
  "lex st [] = lex_end st"
| "lex st (c # cs) =
     (case lex_step st c of
        None \<Rightarrow> None
      | Some (ts, st') \<Rightarrow>
          (case lex st' cs of None \<Rightarrow> None | Some rest \<Rightarrow> Some (ts @ rest)))"

text \<open>
  The parser keeps the open arrays and objects on a stack, innermost first; \<open>FKey\<close> is a
  member name waiting for its value.
\<close>

datatype frame = FArray "json list" | FObject "(jsstring \<times> json) list" | FKey jsstring

datatype pstate = PValue | PValueOrEnd | PKeyOrEnd | PKey | PColon | PAfter | PDone json

fun put_value :: "json \<Rightarrow> frame list \<Rightarrow> (pstate \<times> frame list) option" where
  "put_value v [] = Some (PDone v, [])"
| "put_value v (FArray xs # st) = Some (PAfter, FArray (xs @ [v]) # st)"
| "put_value v (FKey k # FObject ms # st) = Some (PAfter, FObject (ms @ [(k, v)]) # st)"
| "put_value v _ = None"

fun close_array :: "frame list \<Rightarrow> (pstate \<times> frame list) option" where
  "close_array (FArray xs # st) = put_value (JArray xs) st"
| "close_array _ = None"

fun close_object :: "frame list \<Rightarrow> (pstate \<times> frame list) option" where
  "close_object (FObject ms # st) = put_value (JObject ms) st"
| "close_object _ = None"

fun start_value :: "token \<Rightarrow> frame list \<Rightarrow> (pstate \<times> frame list) option" where
  "start_value TLBracket st = Some (PValueOrEnd, FArray [] # st)"
| "start_value TLBrace st = Some (PKeyOrEnd, FObject [] # st)"
| "start_value (TString s) st = put_value (JString s) st"
| "start_value (TNumber n) st = put_value (JNumber n) st"
| "start_value TTrue st = put_value (JBool True) st"
| "start_value TFalse st = put_value (JBool False) st"
| "start_value TNull st = put_value JNull st"
| "start_value _ st = None"

fun parse_step :: "pstate \<Rightarrow> frame list \<Rightarrow> token \<Rightarrow> (pstate \<times> frame list) option" where
  "parse_step PValue st t = start_value t st"
| "parse_step PValueOrEnd st t = (if t = TRBracket then close_array st else start_value t st)"
| "parse_step PKeyOrEnd st t =
     (case t of TString k \<Rightarrow> Some (PColon, FKey k # st) | TRBrace \<Rightarrow> close_object st | _ \<Rightarrow> None)"
| "parse_step PKey st t = (case t of TString k \<Rightarrow> Some (PColon, FKey k # st) | _ \<Rightarrow> None)"
| "parse_step PColon st t = (if t = TColon then Some (PValue, st) else None)"
| "parse_step PAfter st t =
     (case t of
        TComma \<Rightarrow>
          (case st of
             FArray xs # _ \<Rightarrow> Some (PValue, st)
           | FObject ms # _ \<Rightarrow> Some (PKey, st)
           | _ \<Rightarrow> None)
      | TRBracket \<Rightarrow> close_array st
      | TRBrace \<Rightarrow> close_object st
      | _ \<Rightarrow> None)"
| "parse_step (PDone v) st t = None"

fun parse_tokens :: "pstate \<Rightarrow> frame list \<Rightarrow> token list \<Rightarrow> json option" where
  "parse_tokens p st [] = (case p of PDone v \<Rightarrow> Some v | _ \<Rightarrow> None)"
| "parse_tokens p st (t # ts) =
     (case parse_step p st t of
        None \<Rightarrow> None
      | Some (p', st') \<Rightarrow> parse_tokens p' st' ts)"

text \<open>\<open>JSON.parse(text)\<close>; \<open>None\<close> is the \<open>SyntaxError\<close>.\<close>

definition JSON_parse :: "jsstring \<Rightarrow> json option" where
  "JSON_parse s = (case lex LStart s of None \<Rightarrow> None | Some ts \<Rightarrow> parse_tokens PValue [] ts)"

section \<open>Exceptions\<close>

text \<open>
  The exceptions of the service, with their messages, and those that reach it from
  Prisma and from the language.
\<close>

datatype error =
    NotFoundException jsstring
  | BadRequestException jsstring
  | ConflictException jsstring
  | PrismaRecordNotFound
  | PrismaValidationError
  | TypeError

section \<open>The store behind \<open>ExamPaperService\<close>\<close>

text \<open>
  The Prisma models \<open>Question\<close> and \<open>AddAssessment\<close> as rows, tables as lists of rows in
  table order. \<open>'d\<close> is the type of a stored date. The two counters are the
  autoincrement sequences of the primary keys.
\<close>

record question =
  q_id :: int
  questionNumber :: int
  content :: "jsstring option"
  options :: json
  answer :: jsstring
  assessmentId :: int

record 'd assessment =
  a_id :: int
  title :: jsvalue
  description :: jsvalue
  courseUnit :: jsvalue
  courseUnitCode :: jsvalue
  duration :: jsvalue
  scheduledDate :: 'd
  startTime :: 'd
  endTime :: 'd
  createdBy :: jsvalue
  courseId :: int
  isDraft :: bool

record 'd store =
  assessments :: "'d assessment list"
  questions :: "question list"
  courses :: "int list"
  nextAssessmentId :: int
  nextQuestionId :: int

text \<open>Primary keys are unique within a table.\<close>

definition unique_ids :: "'d store \<Rightarrow> bool" where
  "unique_ids s \<longleftrightarrow> distinct (map a_id (assessments s)) \<and> distinct (map q_id (questions s))"

text \<open>\<open>prisma.addAssessment.findUnique({ where: { id } })\<close>\<close>

definition findUnique_assessment :: "'d store \<Rightarrow> int \<Rightarrow> 'd assessment option" where
  "findUnique_assessment s i = find (\<lambda>a. a_id a = i) (assessments s)"

text \<open>
  \<open>prisma.question.findMany({ where: { assessmentId }, orderBy: { questionNumber: 'asc' } })\<close>,
  also the \<open>include: { questions: { orderBy: ... } }\<close> of an assessment query. Rows with the
  same number stay in table order.
\<close>

definition findMany_questions :: "'d store \<Rightarrow> int \<Rightarrow> question list" where
  "findMany_questions s aid =
     sort_key questionNumber (filter (\<lambda>q. assessmentId q = aid) (questions s))"

text \<open>\<open>prisma.question.delete({ where: { id } })\<close>: raises when no row has the id.\<close>

definition question_delete :: "int \<Rightarrow> 'd store \<Rightarrow> error + 'd store" where
  "question_delete i s =
     (if i \<in> set (map q_id (questions s))
      then Inr (s\<lparr>questions := filter (\<lambda>q. q_id q \<noteq> i) (questions s)\<rparr>)
      else Inl PrismaRecordNotFound)"

text \<open>\<open>prisma.question.update({ where: { id }, data: { questionNumber: n } })\<close>\<close>

definition question_update_number :: "int \<Rightarrow> int \<Rightarrow> 'd store \<Rightarrow> error + 'd store" where
  "question_update_number i n s =
     (if i \<in> set (map q_id (questions s))
      then Inr (s\<lparr>questions :=
             map (\<lambda>q. if q_id q = i then q\<lparr>questionNumber := n\<rparr> else q) (questions s)\<rparr>)
      else Inl PrismaRecordNotFound)"

text \<open>\<open>prisma.addAssessment.update({ where: { id }, data: { isDraft: false } })\<close>\<close>

definition assessment_update_isDraft ::
  "int \<Rightarrow> bool \<Rightarrow> 'd store \<Rightarrow> error + ('d store \<times> 'd assessment)" where
  "assessment_update_isDraft i b s =
     (case find (\<lambda>a. a_id a = i) (assessments s) of
        None \<Rightarrow> Inl PrismaRecordNotFound
      | Some a \<Rightarrow>
          Inr (s\<lparr>assessments :=
                 map (\<lambda>a. if a_id a = i then a\<lparr>isDraft := b\<rparr> else a) (assessments s)\<rparr>,
               a\<lparr>isDraft := b\<rparr>))"

section \<open>What the service is given\<close>

text \<open>
  A row delivered by \<open>csv-parser\<close>: an object from header names to cell texts.
  \<open>field data f\<close> is \<open>data[f]\<close>.
\<close>

type_synonym csv_row = "jsstring \<rightharpoonup> jsstring"

definition field :: "csv_row \<Rightarrow> jsstring \<Rightarrow> jsvalue" where
  "field data f = (case data f of None \<Rightarrow> JSUndefined | Some v \<Rightarrow> JSString v)"

text \<open>
  The code units of a string value. \<open>join\<close> prints \<open>undefined\<close> and \<open>null\<close> as the
  empty text; a cell of a row is a string or \<open>undefined\<close>.
\<close>

fun text_of :: "jsvalue \<Rightarrow> jsstring" where
  "text_of (JSString s) = s"
| "text_of _ = []"

text \<open>\<open>vs.join('')\<close>\<close>

definition join_empty :: "jsvalue list \<Rightarrow> jsstring" where
  "join_empty vs = concat (map text_of vs)"

text \<open>\<open>Express.Multer.File\<close>, as far as the service reads it.\<close>

record multer_file =
  originalname :: jsstring
  path :: jsstring

text \<open>\<open>UploadExamPaperDto\<close>\<close>

record uploadExamPaperDto =
  up_title :: jsvalue
  up_description :: jsvalue
  up_courseId :: jsstring
  up_courseUnit :: jsvalue
  up_courseUnitCode :: jsvalue
  up_duration :: jsvalue
  up_scheduledDate :: jsstring
  up_startTime :: jsstring
  up_endTime :: jsstring
  up_createdBy :: jsvalue
  up_isDraft :: jsvalue

text \<open>
  The libraries and the file system, as the service uses them; \<open>'d\<close> is a valid moment
  (and the \<open>Date\<close> it converts to).
  \<^item> \<open>readCsv p\<close>: what the stream \<open>fs.createReadStream(p).pipe(csvParser())\<close> delivers
    to its listeners, a \<open>csv_stream\<close>;
  \<^item> \<open>momentParse s f strict\<close>: \<open>moment(s, f, strict)\<close>, \<open>None\<close> when it is not valid;
  \<^item> \<open>momentSetClock d h m s\<close>:
    \<open>moment(d).set({ hour: Number(h), minute: Number(m), second: Number(s) })\<close>, \<open>None\<close>
    when it is not valid;
  \<^item> \<open>momentFormat d f\<close>: \<open>moment(d).format(f)\<close>.
\<close>

text \<open>
  The listeners of \<open>parseCsv\<close> sit on the stream that \<open>pipe\<close> returns, the one of
  \<open>csv-parser\<close>. It delivers either its own \<open>error\<close> event with a message, or the rows
  of its \<open>data\<close> events up to \<open>end\<close>, or neither: an error of the read stream (a file
  that is missing or cannot be read) is not passed on by \<open>pipe\<close>, so no listener of
  \<open>parseCsv\<close> is ever called.
\<close>

datatype csv_stream =
    CsvError jsstring
  | CsvEnd "csv_row list"
  | CsvSilent

record 'd env =
  readCsv :: "jsstring \<Rightarrow> csv_stream"
  momentParse :: "jsstring \<Rightarrow> jsstring \<Rightarrow> bool \<Rightarrow> 'd option"
  momentSetClock :: "'d \<Rightarrow> jsstring \<Rightarrow> jsstring \<Rightarrow> jsstring \<Rightarrow> 'd option"
  momentFormat :: "'d \<Rightarrow> jsstring \<Rightarrow> jsstring"

section \<open>\<open>ExamPaperService\<close>\<close>

subsection \<open>\<open>deleteQuestionById\<close>\<close>

text \<open>
  The loop \<open>for (let i = 0; i < remainingQuestions.length; i++)\<close> of the transaction:
  \<open>renumber qs i\<close> runs it from index \<open>i\<close> over the rest \<open>qs\<close> of the array.
\<close>

fun renumber :: "question list \<Rightarrow> int \<Rightarrow> 'd store \<Rightarrow> error + 'd store" where
  "renumber [] i s = Inr s"
| "renumber (q # qs) i s =
     (case question_update_number (q_id q) (i + 1) s of
        Inl e \<Rightarrow> Inl e
      | Inr s' \<Rightarrow> renumber qs (i + 1) s')"

text \<open>
  The body of \<open>prisma.$transaction\<close>: delete the row, then renumber the rest of the
  snapshot \<open>examPaperQuestions\<close> read before the transaction.
\<close>

definition deleteQuestion_tx :: "int \<Rightarrow> question list \<Rightarrow> 'd store \<Rightarrow> error + 'd store" where
  "deleteQuestion_tx questionId examPaperQuestions s =
     (case question_delete questionId s of
        Inl e \<Rightarrow> Inl e
      | Inr s1 \<Rightarrow>
          (let remainingQuestions =
                 sort_key questionNumber
                   (filter (\<lambda>q. q_id q \<noteq> questionId) examPaperQuestions)
           in renumber remainingQuestions 0 s1))"

text \<open>
  The operation returns the store it leaves and its outcome. A transaction that raises
  is rolled back: the store is the one before.
\<close>

definition deleteQuestionById :: "int \<Rightarrow> int \<Rightarrow> 'd store \<Rightarrow> 'd store \<times> (error + jsstring)" where
  "deleteQuestionById questionId examPaperId s =
     (case findUnique_assessment s examPaperId of
        None \<Rightarrow> (s, Inl (NotFoundException (js ''Exam paper not found'')))
      | Some examPaper \<Rightarrow>
          (let examPaperQuestions = findMany_questions s examPaperId in
           case find (\<lambda>q. q_id q = questionId) examPaperQuestions of
             None \<Rightarrow> (s, Inl (NotFoundException (js ''Question not found in this exam paper'')))
           | Some question \<Rightarrow>
               (case deleteQuestion_tx questionId examPaperQuestions s of
                  Inl e \<Rightarrow> (s, Inl e)
                | Inr s' \<Rightarrow>
                    (s', Inr (js ''Question deleted successfully and questions renumbered'')))))"

subsection \<open>\<open>publishExamPaper\<close>\<close>

definition publishExamPaper :: "int \<Rightarrow> 'd store \<Rightarrow> 'd store \<times> (error + 'd assessment)" where
  "publishExamPaper i s =
     (case findUnique_assessment s i of
        None \<Rightarrow> (s, Inl (NotFoundException (js ''Exam paper not found'')))
      | Some examPaper \<Rightarrow>
          (case assessment_update_isDraft i False s of
             Inl e \<Rightarrow> (s, Inl e)
           | Inr (s', a) \<Rightarrow> (s', Inr a)))"

subsection \<open>\<open>allQuestionsNoAnswer\<close>\<close>

text \<open>The rest object of \<open>({ answer, ...questionWithoutAnswer })\<close>: every field but \<open>answer\<close>.\<close>

record questionWithoutAnswer =
  qwa_id :: int
  qwa_questionNumber :: int
  qwa_content :: "jsstring option"
  qwa_options :: json
  qwa_assessmentId :: int

definition withoutAnswer :: "question \<Rightarrow> questionWithoutAnswer" where
  "withoutAnswer q =
     \<lparr>qwa_id = q_id q, qwa_questionNumber = questionNumber q, qwa_content = content q,
      qwa_options = options q, qwa_assessmentId = assessmentId q\<rparr>"

definition allQuestionsNoAnswer :: "int \<Rightarrow> 'd store \<Rightarrow> error + questionWithoutAnswer list" where
  "allQuestionsNoAnswer aid s =
     (let qs = findMany_questions s aid in
      if length qs = 0
      then Inl (NotFoundException (js ''No questions found for this assessment''))
      else Inr (map withoutAnswer qs))"

subsection \<open>\<open>parseCsv\<close>\<close>

record parsedQuestion =
  pq_content :: "jsstring option"
  pq_answer :: jsstring
  pq_options :: json

definition optionFields :: "jsstring list" where
  "optionFields = [js ''options'', js ''_3'', js ''_4'', js ''_5'', js ''_6'', js ''_7'']"

text \<open>The string handed to \<open>JSON.parse\<close> for a row.\<close>

definition combinedOptions :: "csv_row \<Rightarrow> jsstring" where
  "combinedOptions data =
     (let combined =
            trim (replace_backslashes (join_empty (filter Boolean (map (field data) optionFields))));
          combined = (if \<not> startsWith combined [91] then 91 # combined else combined);
          combined = (if \<not> endsWith combined [93] then combined @ [93] else combined)
      in combined)"

text \<open>
  The handler of a \<open>data\<close> event: the \<open>try\<close> block pushes a record onto \<open>results\<close>; the
  \<open>catch\<close> block logs and leaves \<open>results\<close> as it is.
\<close>

definition on_data :: "parsedQuestion list \<Rightarrow> csv_row \<Rightarrow> parsedQuestion list" where
  "on_data results data =
     (case JSON_parse (combinedOptions data) of
        None \<Rightarrow> results
      | Some parsedOptions \<Rightarrow>
          results @
          [\<lparr>pq_content = data (js ''content''),
            pq_answer = text_of (js_or (field data (js ''answer'')) (JSString [])),
            pq_options = parsedOptions\<rparr>])"

text \<open>
  The promise \<open>parseCsv\<close> returns: rejected on \<open>error\<close>, resolved with \<open>results\<close> on
  \<open>end\<close>, and never settled (\<open>None\<close>) when neither event arrives.
\<close>

definition parseCsv :: "'d env \<Rightarrow> jsstring \<Rightarrow> (error + parsedQuestion list) option" where
  "parseCsv e filePath =
     (case readCsv e filePath of
        CsvError message \<Rightarrow>
          Some (Inl (BadRequestException (js ''Error reading CSV: '' @ message)))
      | CsvEnd rows \<Rightarrow> Some (Inr (foldl on_data [] rows))
      | CsvSilent \<Rightarrow> None)"

subsection \<open>\<open>uploadExamPaper\<close>\<close>

text \<open>The rows written by \<open>questions.map((question, index) => prisma.question.create(...))\<close>.\<close>

fun create_questions :: "int \<Rightarrow> int \<Rightarrow> parsedQuestion list \<Rightarrow> 'd store \<Rightarrow> 'd store" where
  "create_questions aid index [] s = s"
| "create_questions aid index (question # rest) s =
     create_questions aid (index + 1) rest
       (s\<lparr>questions := questions s @
             [\<lparr>q_id = nextQuestionId s, questionNumber = index + 1,
               content = pq_content question,
               options = pq_options question,
               answer = text_of (js_or (JSString (pq_answer question)) (JSString [])),
               assessmentId = aid\<rparr>],
          nextQuestionId := nextQuestionId s + 1\<rparr>)"

text \<open>
  \<open>prisma.addAssessment.create\<close> with \<open>course: { connect: { id } }\<close>: raises when the
  id is \<open>NaN\<close> or no course has it.
\<close>

definition assessment_create ::
  "'d assessment \<Rightarrow> int option \<Rightarrow> 'd store \<Rightarrow> error + ('d store \<times> 'd assessment)" where
  "assessment_create d course s =
     (case course of
        None \<Rightarrow> Inl PrismaValidationError
      | Some c \<Rightarrow>
          if c \<notin> set (courses s) then Inl PrismaRecordNotFound
          else (let a = d\<lparr>a_id := nextAssessmentId s, courseId := c\<rparr>
                in Inr (s\<lparr>assessments := assessments s @ [a],
                          nextAssessmentId := nextAssessmentId s + 1\<rparr>, a)))"

text \<open>
  What the upload returns: the assessment with its dates as texts, and its questions.
  \<open>upload_tx\<close> is the body of \<open>prisma.$transaction\<close>; \<open>TypeError\<close> is what reading a field
  of \<open>null\<close> raises, were the new assessment not found.
\<close>

type_synonym upload_result = "jsstring assessment \<times> question list"

definition upload_tx ::
  "'d env \<Rightarrow> uploadExamPaperDto \<Rightarrow> parsedQuestion list \<Rightarrow> 'd \<Rightarrow> 'd \<Rightarrow> 'd \<Rightarrow> 'd store \<Rightarrow>
   error + ('d store \<times> upload_result)" where
  "upload_tx e dto qs scheduled startMoment endMoment s =
     (case assessment_create
             \<lparr>a_id = 0, title = up_title dto, description = up_description dto,
              courseUnit = up_courseUnit dto, courseUnitCode = up_courseUnitCode dto,
              duration = up_duration dto, scheduledDate = scheduled, startTime = startMoment,
              endTime = endMoment, createdBy = up_createdBy dto, courseId = 0,
              isDraft = Boolean (up_isDraft dto)\<rparr>
             (parseInt (up_courseId dto)) s of
        Inl err \<Rightarrow> Inl err
      | Inr (s1, examPaper) \<Rightarrow>
          (let s2 = create_questions (a_id examPaper) 0 qs s1 in
           case findUnique_assessment s2 (a_id examPaper) of
             None \<Rightarrow> Inl TypeError
           | Some completeExamPaper \<Rightarrow>
               Inr (s2,
                    (\<lparr>a_id = a_id completeExamPaper,
                      title = title completeExamPaper,
                      description = description completeExamPaper,
                      courseUnit = courseUnit completeExamPaper,
                      courseUnitCode = courseUnitCode completeExamPaper,
                      duration = duration completeExamPaper,
                      scheduledDate =
                        momentFormat e (scheduledDate completeExamPaper)
                          (js ''YYYY-MM-DD HH:mm:ss''),
                      startTime = momentFormat e (startTime completeExamPaper) (js ''HH:mm:ss''),
                      endTime = momentFormat e (endTime completeExamPaper) (js ''HH:mm:ss''),
                      createdBy = createdBy completeExamPaper,
                      courseId = courseId completeExamPaper,
                      isDraft = isDraft completeExamPaper\<rparr>,
                     findMany_questions s2 (a_id examPaper)))))"

definition InvalidFile :: error where
  "InvalidFile = BadRequestException (js ''CSV file not provided or incorrect file type'')"

definition EmptyQuestionSet :: error where
  "EmptyQuestionSet = BadRequestException (js ''No valid questions found in CSV'')"

definition InvalidScheduleFormat :: error where
  "InvalidScheduleFormat =
     BadRequestException (js ''Invalid scheduled date format. Use YYYY-MM-DD HH:mm:ss.'')"

definition InvalidTimeFormat :: error where
  "InvalidTimeFormat =
     BadRequestException (js ''Invalid time format for startTime or endTime. Use HH:MM:SS.'')"

text \<open>
  The operation returns the store it leaves and its outcome: \<open>Some\<close> of the exception
  raised or of the value returned, and \<open>None\<close> when \<open>await this.parseCsv\<close> never
  returns.
\<close>

definition uploadExamPaper ::
  "'d env \<Rightarrow> multer_file option \<Rightarrow> uploadExamPaperDto \<Rightarrow> 'd store \<Rightarrow>
   'd store \<times> (error + upload_result) option" where
  "uploadExamPaper e file dto s =
     (case file of
        None \<Rightarrow> (s, Some (Inl InvalidFile))
      | Some f \<Rightarrow>
          if \<not> endsWith (originalname f) (js ''.csv'') then (s, Some (Inl InvalidFile))
          else
            (case parseCsv e (path f) of
               None \<Rightarrow> (s, None)
             | Some (Inl err) \<Rightarrow> (s, Some (Inl err))
             | Some (Inr qs) \<Rightarrow>
                 if length qs = 0 then (s, Some (Inl EmptyQuestionSet))
                 else
                   (case momentParse e (up_scheduledDate dto) (js ''YYYY-MM-DD HH:mm:ss'') True of
                      None \<Rightarrow> (s, Some (Inl InvalidScheduleFormat))
                    | Some scheduled \<Rightarrow>
                        (let startTimeParts = split_colon (up_startTime dto);
                             endTimeParts = split_colon (up_endTime dto)
                         in if length startTimeParts \<noteq> 3 \<or> length endTimeParts \<noteq> 3
                            then (s, Some (Inl InvalidTimeFormat))
                            else
                              (case (momentSetClock e scheduled (startTimeParts ! 0)
                                       (startTimeParts ! 1) (startTimeParts ! 2),
                                     momentSetClock e scheduled (endTimeParts ! 0)
                                       (endTimeParts ! 1) (endTimeParts ! 2)) of
                                 (Some startMoment, Some endMoment) \<Rightarrow>
                                   (case upload_tx e dto qs scheduled startMoment endMoment s of
                                      Inl err \<Rightarrow> (s, Some (Inl err))
                                    | Inr (s', r) \<Rightarrow> (s', Some (Inr r)))
                               | _ \<Rightarrow> (s, Some (Inl InvalidTimeFormat)))))))"

section \<open>\<open>ManualAssessmentService\<close>\<close>

text \<open>
  The Prisma models \<open>ManualAssessment\<close> and \<open>QuestionManual\<close>. The column types are
  declared outside the service, so a scalar column holds a \<open>jsvalue\<close>.
\<close>

record questionManual =
  qm_id :: int
  qm_questions :: jsvalue
  qm_options :: jsvalue
  qm_correctAnswer :: jsvalue
  qm_assessmentId :: int

record manualAssessment =
  m_id :: int
  m_title :: jsvalue
  m_description :: jsvalue
  m_courseId :: jsvalue
  m_courseUnit :: jsvalue
  m_courseUnitCode :: jsvalue
  m_duration :: jsvalue
  m_scheduledDate :: jsvalue
  m_startTime :: jsvalue
  m_endTime :: jsvalue
  m_createdBy :: jsvalue

record manual_store =
  manualAssessments :: "manualAssessment list"
  questionManuals :: "questionManual list"
  nextQuestionManualId :: int

text \<open>
  \<open>UpdatemanualAssessmentDto\<close>: every field may be absent (\<open>JSUndefined\<close>, and \<open>None\<close>
  for the list of questions). \<open>'o\<close> is the type of a question's \<open>options\<close>.
\<close>

record 'o questionDto =
  questionText :: jsvalue
  dto_options :: 'o
  correctAnswer :: jsvalue

record 'o updateManualAssessmentDto =
  dto_title :: jsvalue
  dto_description :: jsvalue
  dto_courseId :: jsvalue
  dto_courseUnit :: jsvalue
  dto_courseUnitCode :: jsvalue
  dto_duration :: jsvalue
  dto_scheduledDate :: jsvalue
  dto_startTime :: jsvalue
  dto_endTime :: jsvalue
  dto_createdBy :: jsvalue
  dto_questions :: "'o questionDto list option"

text \<open>The argument of the nested \<open>questions: { create: ... }\<close>: a row without its keys.\<close>

record questionManualInput =
  in_questions :: jsvalue
  in_options :: jsvalue
  in_correctAnswer :: jsvalue

text \<open>The decimal text of an integer, as a template literal prints a route id.\<close>

fun decimal :: "nat \<Rightarrow> jsstring" where
  "decimal n = (if n < 10 then [48 + n] else decimal (n div 10) @ [48 + n mod 10])"

definition int_text :: "int \<Rightarrow> jsstring" where
  "int_text i = (if i < 0 then 45 # decimal (nat (- i)) else decimal (nat i))"

text \<open>What \<open>findOne\<close> returns: the assessment with \<open>include: { questions: true }\<close>.\<close>

definition questionsOf :: "manual_store \<Rightarrow> int \<Rightarrow> questionManual list" where
  "questionsOf s i = filter (\<lambda>q. qm_assessmentId q = i) (questionManuals s)"

definition findOne :: "int \<Rightarrow> manual_store \<Rightarrow> error + (manualAssessment \<times> questionManual list)" where
  "findOne i s =
     (case find (\<lambda>a. m_id a = i) (manualAssessments s) of
        None \<Rightarrow> Inl (NotFoundException (js ''Assessment with ID '' @ int_text i @ js '' not found''))
      | Some assessment \<Rightarrow> Inr (assessment, questionsOf s i))"

text \<open>
  The nested create: one new row per input, in order, each with the next key of the
  sequence and linked to the assessment.
\<close>

fun create_questionManuals ::
  "int \<Rightarrow> questionManualInput list \<Rightarrow> manual_store \<Rightarrow> manual_store" where
  "create_questionManuals aid [] s = s"
| "create_questionManuals aid (x # xs) s =
     create_questionManuals aid xs
       (s\<lparr>questionManuals := questionManuals s @
             [\<lparr>qm_id = nextQuestionManualId s, qm_questions = in_questions x,
               qm_options = in_options x, qm_correctAnswer = in_correctAnswer x,
               qm_assessmentId = aid\<rparr>],
          nextQuestionManualId := nextQuestionManualId s + 1\<rparr>)"

text \<open>
  \<open>prisma.manualAssessment.update({ where: { id }, data: { ..., questions: { create } } })\<close>:
  writes the scalar fields of the row, creates the nested rows and returns the row.
\<close>

definition manualAssessment_update ::
  "int \<Rightarrow> manualAssessment \<Rightarrow> questionManualInput list \<Rightarrow> manual_store \<Rightarrow>
   error + (manual_store \<times> manualAssessment)" where
  "manualAssessment_update i d qs s =
     (case find (\<lambda>a. m_id a = i) (manualAssessments s) of
        None \<Rightarrow> Inl PrismaRecordNotFound
      | Some a \<Rightarrow>
          Inr (create_questionManuals i qs
                 (s\<lparr>manualAssessments :=
                      map (\<lambda>a. if m_id a = i then d\<lparr>m_id := i\<rparr> else a) (manualAssessments s)\<rparr>),
               d\<lparr>m_id := i\<rparr>))"

text \<open>
  \<open>update\<close>. \<open>stringify\<close> is \<open>JSON.stringify\<close> on the type of \<open>options\<close>.
\<close>

definition manual_update ::
  "('o \<Rightarrow> jsvalue) \<Rightarrow> int \<Rightarrow> 'o updateManualAssessmentDto \<Rightarrow> manual_store \<Rightarrow>
   manual_store \<times> (error + manualAssessment)" where
  "manual_update stringify i data s =
     (case findOne i s of
        Inl e \<Rightarrow> (s, Inl e)
      | Inr (assessment, _) \<Rightarrow>
          (let questions =
                 (case dto_questions data of
                    None \<Rightarrow> []
                  | Some qs \<Rightarrow>
                      map (\<lambda>question.
                             \<lparr>in_questions = questionText question,
                              in_options = stringify (dto_options question),
                              in_correctAnswer = correctAnswer question\<rparr>) qs)
           in case manualAssessment_update i
                     \<lparr>m_id = i,
                      m_title = js_or (dto_title data) (m_title assessment),
                      m_description = js_or (dto_description data) (m_description assessment),
                      m_courseId = js_or (dto_courseId data) (m_courseId assessment),
                      m_courseUnit = js_or (dto_courseUnit data) (m_courseUnit assessment),
                      m_courseUnitCode = js_or (dto_courseUnitCode data) (m_courseUnitCode assessment),
                      m_duration = js_or (dto_duration data) (m_duration assessment),
                      m_scheduledDate = js_or (dto_scheduledDate data) (m_scheduledDate assessment),
                      m_startTime = js_or (dto_startTime data) (m_startTime assessment),
                      m_endTime = js_or (dto_endTime data) (m_endTime assessment),
                      m_createdBy = js_or (dto_createdBy data) (m_createdBy assessment)\<rparr>
                     questions s of
                Inl e \<Rightarrow> (s, Inl e)
              | Inr (s', a) \<Rightarrow> (s', Inr a)))"

text \<open>The rows \<open>update\<close> derives from the supplied list.\<close>

definition derived_rows :: "('o \<Rightarrow> jsvalue) \<Rightarrow> 'o questionDto list \<Rightarrow> questionManualInput list" where
  "derived_rows stringify qs =
     map (\<lambda>q. \<lparr>in_questions = questionText q, in_options = stringify (dto_options q),
               in_correctAnswer = correctAnswer q\<rparr>) qs"

definition row_input :: "questionManual \<Rightarrow> questionManualInput" where
  "row_input q =
     \<lparr>in_questions = qm_questions q, in_options = qm_options q,
      in_correctAnswer = qm_correctAnswer q\<rparr>"

section \<open>The options text of a row in the words of the specification\<close>

text \<open>
  The parser as the specification describes it, step by step, to be compared with
  \<open>combinedOptions\<close> and \<open>on_data\<close> of the service: the option-bearing cells in the fixed
  order, a falsy cell contributing nothing; backslashes stripped; white space trimmed; a
  bracket added at either end where it is missing; the result parsed as JSON; the answer
  empty when absent.
\<close>

definition spec_cell :: "csv_row \<Rightarrow> string \<Rightarrow> jsstring" where
  "spec_cell data f = (case data (js f) of None \<Rightarrow> [] | Some v \<Rightarrow> v)"

definition spec_concatenated :: "csv_row \<Rightarrow> jsstring" where
  "spec_concatenated data =
     spec_cell data ''options'' @ spec_cell data ''_3'' @ spec_cell data ''_4'' @
     spec_cell data ''_5'' @ spec_cell data ''_6'' @ spec_cell data ''_7''"

fun spec_strip_backslashes :: "jsstring \<Rightarrow> jsstring" where
  "spec_strip_backslashes [] = []"
| "spec_strip_backslashes (c # cs) =
     (if c = 92 then spec_strip_backslashes cs else c # spec_strip_backslashes cs)"

fun spec_trim_front :: "jsstring \<Rightarrow> jsstring" where
  "spec_trim_front [] = []"
| "spec_trim_front (c # cs) = (if js_whitespace c then spec_trim_front cs else c # cs)"

definition spec_trim :: "jsstring \<Rightarrow> jsstring" where
  "spec_trim s = rev (spec_trim_front (rev (spec_trim_front s)))"

definition spec_repair_brackets :: "jsstring \<Rightarrow> jsstring" where
  "spec_repair_brackets s =
     (let opened = (case s of [] \<Rightarrow> [91] | c # cs \<Rightarrow> if c = 91 then s else 91 # s)
      in if last opened = 93 then opened else opened @ [93])"

definition spec_options_text :: "csv_row \<Rightarrow> jsstring" where
  "spec_options_text data =
     spec_repair_brackets (spec_trim (spec_strip_backslashes (spec_concatenated data)))"

definition spec_row :: "csv_row \<Rightarrow> parsedQuestion option" where
  "spec_row data =
     (case JSON_parse (spec_options_text data) of
        None \<Rightarrow> None
      | Some opts \<Rightarrow>
          Some \<lparr>pq_content = data (js ''content''),
                pq_answer = (case data (js ''answer'') of None \<Rightarrow> [] | Some a \<Rightarrow> a),
                pq_options = opts\<rparr>)"

section \<open>Auxiliary definitions for the proofs\<close>

text \<open>
  What the renumbering loop does to one row: \<open>renum_row ks i r\<close> is row \<open>r\<close> after the
  updates for the ids \<open>ks\<close>, issued from index \<open>i\<close>.
\<close>

fun renum_row :: "int list \<Rightarrow> int \<Rightarrow> question \<Rightarrow> question" where
  "renum_row [] i r = r"
| "renum_row (k # ks) i r =
     renum_row ks (i + 1) (if q_id r = k then r\<lparr>questionNumber := i + 1\<rparr> else r)"

fun number_from :: "int \<Rightarrow> question list \<Rightarrow> question list" where
  "number_from n [] = []"
| "number_from n (q # qs) = q\<lparr>questionNumber := n\<rparr> # number_from (n + 1) qs"

text \<open>A row with its answer blanked: what two stores may differ in.\<close>

definition eraseAnswer :: "question \<Rightarrow> question" where
  "eraseAnswer q = q\<lparr>answer := []\<rparr>"

text \<open>A row survives parsing when its repaired options text is JSON.\<close>

definition survives :: "csv_row \<Rightarrow> bool" where
  "survives data \<longleftrightarrow> JSON_parse (combinedOptions data) \<noteq> None"

text \<open>The question rows an upload writes, from index \<open>index\<close> and key \<open>key\<close> on.\<close>

fun created_rows :: "int \<Rightarrow> int \<Rightarrow> int \<Rightarrow> parsedQuestion list \<Rightarrow> question list" where
  "created_rows aid index key [] = []"
| "created_rows aid index key (q # qs) =
     \<lparr>q_id = key, questionNumber = index + 1, content = pq_content q, options = pq_options q,
      answer = pq_answer q, assessmentId = aid\<rparr> #
     created_rows aid (index + 1) (key + 1) qs"

text \<open>The invariant of the JSON parser on a text that opens with a bracket.\<close>

fun is_array_frame :: "frame \<Rightarrow> bool" where
  "is_array_frame (FArray xs) = True"
| "is_array_frame _ = False"

fun is_array :: "json \<Rightarrow> bool" where
  "is_array (JArray xs) = True"
| "is_array _ = False"

text \<open>An array all of whose elements are strings.\<close>

fun is_string :: "json \<Rightarrow> bool" where
  "is_string (JString s) = True"
| "is_string _ = False"

fun is_string_array :: "json \<Rightarrow> bool" where
  "is_string_array (JArray xs) = list_all is_string xs"
| "is_string_array _ = False"

definition in_array :: "pstate \<Rightarrow> frame list \<Rightarrow> bool" where
  "in_array p st \<longleftrightarrow>
     (case p of
        PDone v \<Rightarrow> st = [] \<and> is_array v
      | _ \<Rightarrow> st \<noteq> [] \<and> is_array_frame (last st))"

section \<open>An instance of the libraries for the examples\<close>

text \<open>
  A moment as its calendar fields. The instance covers what the examples use: strict
  parsing against \<open>YYYY-MM-DD HH:mm:ss\<close>, clock fields written with decimal digits
  within their ranges, and the two formats of the service; outside that it answers
  \<open>None\<close> or the empty text.
\<close>

record civil =
  year :: nat
  month :: nat
  day :: nat
  hour :: nat
  minute :: nat
  second :: nat

definition leap_year :: "nat \<Rightarrow> bool" where
  "leap_year y \<longleftrightarrow> (y mod 4 = 0 \<and> y mod 100 \<noteq> 0) \<or> y mod 400 = 0"

definition days_in_month :: "nat \<Rightarrow> nat \<Rightarrow> nat" where
  "days_in_month y m =
     (if m = 2 then (if leap_year y then 29 else 28)
      else if m = 4 \<or> m = 6 \<or> m = 9 \<or> m = 11 then 30 else 31)"

definition next_day :: "civil \<Rightarrow> civil" where
  "next_day d =
     (if day d < days_in_month (year d) (month d) then d\<lparr>day := day d + 1\<rparr>
      else if month d < 12 then d\<lparr>month := month d + 1, day := 1\<rparr>
      else d\<lparr>year := year d + 1, month := 1, day := 1\<rparr>)"

definition all_digits :: "jsstring \<Rightarrow> bool" where
  "all_digits s \<longleftrightarrow> s \<noteq> [] \<and> list_all is_digit s"

definition decimal_value :: "jsstring \<Rightarrow> nat" where
  "decimal_value s = digits_value 10 s"

definition example_momentParse :: "jsstring \<Rightarrow> jsstring \<Rightarrow> bool \<Rightarrow> civil option" where
  "example_momentParse s f strict =
     (if f \<noteq> js ''YYYY-MM-DD HH:mm:ss'' \<or> \<not> strict \<or> length s \<noteq> 19 then None
      else
        (let y = take 4 s; mo = take 2 (drop 5 s); d = take 2 (drop 8 s);
             h = take 2 (drop 11 s); mi = take 2 (drop 14 s); se = take 2 (drop 17 s)
         in if \<not> (all_digits y \<and> all_digits mo \<and> all_digits d \<and> all_digits h \<and>
                   all_digits mi \<and> all_digits se \<and>
                   s ! 4 = 45 \<and> s ! 7 = 45 \<and> s ! 10 = 32 \<and> s ! 13 = 58 \<and> s ! 16 = 58)
            then None
            else
              (let c = \<lparr>year = decimal_value y, month = decimal_value mo, day = decimal_value d,
                        hour = decimal_value h, minute = decimal_value mi,
                        second = decimal_value se\<rparr>
               in if month c < 1 \<or> 12 < month c \<or> day c < 1 \<or>
                     days_in_month (year c) (month c) < day c \<or> 59 < minute c \<or> 59 < second c
                  then None
                  else if hour c < 24 then Some c
                  else if hour c = 24 \<and> minute c = 0 \<and> second c = 0
                  then Some (next_day (c\<lparr>hour := 0\<rparr>))
                  else None)))"

definition example_momentSetClock ::
  "civil \<Rightarrow> jsstring \<Rightarrow> jsstring \<Rightarrow> jsstring \<Rightarrow> civil option" where
  "example_momentSetClock d h m s =
     (if all_digits h \<and> all_digits m \<and> all_digits s \<and>
         decimal_value h < 24 \<and> decimal_value m < 60 \<and> decimal_value s < 60
      then Some (d\<lparr>hour := decimal_value h, minute := decimal_value m, second := decimal_value s\<rparr>)
      else None)"

definition pad2 :: "nat \<Rightarrow> jsstring" where
  "pad2 n = [48 + n div 10 mod 10, 48 + n mod 10]"

definition pad4 :: "nat \<Rightarrow> jsstring" where
  "pad4 n = [48 + n div 1000 mod 10, 48 + n div 100 mod 10, 48 + n div 10 mod 10, 48 + n mod 10]"

definition example_momentFormat :: "civil \<Rightarrow> jsstring \<Rightarrow> jsstring" where
  "example_momentFormat d f =
     (let clock = pad2 (hour d) @ 58 # pad2 (minute d) @ 58 # pad2 (second d)
      in if f = js ''HH:mm:ss'' then clock
         else if f = js ''YYYY-MM-DD HH:mm:ss''
         then pad4 (year d) @ 45 # pad2 (month d) @ 45 # pad2 (day d) @ 32 # clock
         else [])"

text \<open>
  The file of the examples: two rows, \<open>Q1\<close> with options \<open>["A","B"]\<close> and \<open>Q2\<close> with
  options \<open>["C"]\<close>. A second file has one row, whose options are not JSON however
  repaired; a third has that row between the two good ones. No other file exists: the
  read stream fails, and the stream of the parser stays silent.
\<close>

definition example_rows :: "csv_row list" where
  "example_rows =
     [map_of [(js ''content'', js ''Q1''), (js ''options'', js ''[\"A\",\"B\"]'')],
      map_of [(js ''content'', js ''Q2''), (js ''options'', js ''[\"C\"]'')]]"

definition example_bad_row :: csv_row where
  "example_bad_row = map_of [(js ''content'', js ''Q0''), (js ''options'', js ''A,B'')]"

definition example_mixed_rows :: "csv_row list" where
  "example_mixed_rows = [hd example_rows, example_bad_row, last example_rows]"

definition example_readCsv :: "jsstring \<Rightarrow> csv_stream" where
  "example_readCsv p =
     (if p = js ''uploads/paper'' then CsvEnd example_rows
      else if p = js ''uploads/bad'' then CsvEnd [example_bad_row]
      else if p = js ''uploads/mixed'' then CsvEnd example_mixed_rows
      else CsvSilent)"

definition example_env :: "civil env" where
  "example_env =
     \<lparr>readCsv = example_readCsv, momentParse = example_momentParse,
      momentSetClock = example_momentSetClock, momentFormat = example_momentFormat\<rparr>"

definition example_file :: multer_file where
  "example_file = \<lparr>originalname = js ''paper.csv'', path = js ''uploads/paper''\<rparr>"

definition example_bad_file :: multer_file where
  "example_bad_file = \<lparr>originalname = js ''bad.csv'', path = js ''uploads/bad''\<rparr>"

definition example_mixed_file :: multer_file where
  "example_mixed_file = \<lparr>originalname = js ''mixed.csv'', path = js ''uploads/mixed''\<rparr>"


definition example_dto :: uploadExamPaperDto where
  "example_dto =
     \<lparr>up_title = JSString (js ''Midterm''), up_description = JSString (js ''Week 6''),
      up_courseId = js ''7'', up_courseUnit = JSString (js ''Algebra''),
      up_courseUnitCode = JSString (js ''MTH101''), up_duration = JSNumber 120,
      up_scheduledDate = js ''2025-01-01 00:00:00'', up_startTime = js ''09:00:00'',
      up_endTime = js ''11:00:00'', up_createdBy = JSString (js ''staff''),
      up_isDraft = JSUndefined\<rparr>"

section \<open>\<open>JSON.stringify\<close> on an array of strings\<close>

definition hexdigit :: "nat \<Rightarrow> nat" where
  "hexdigit d = (if d < 10 then 48 + d else 87 + d)"

definition unicodeEscape :: "nat \<Rightarrow> jsstring" where
  "unicodeEscape c =
     [92, 117, hexdigit (c div 4096 mod 16), hexdigit (c div 256 mod 16),
      hexdigit (c div 16 mod 16), hexdigit (c mod 16)]"

definition quoteUnit :: "nat \<Rightarrow> jsstring" where
  "quoteUnit c =
     (if c = 8 then [92, 98] else if c = 9 then [92, 116] else if c = 10 then [92, 110]
      else if c = 12 then [92, 102] else if c = 13 then [92, 114]
      else if c = 34 then [92, 34] else if c = 92 then [92, 92]
      else if c < 32 \<or> (55296 \<le> c \<and> c < 57344) then unicodeEscape c
      else [c])"

fun quoteUnits :: "jsstring \<Rightarrow> jsstring" where
  "quoteUnits [] = []"
| "quoteUnits [c] = quoteUnit c"
| "quoteUnits (c # l # cs) =
     (if 55296 \<le> c \<and> c < 56320 \<and> 56320 \<le> l \<and> l < 57344
      then c # l # quoteUnits cs
      else quoteUnit c @ quoteUnits (l # cs))"

fun join_comma :: "jsstring list \<Rightarrow> jsstring" where
  "join_comma [] = []"
| "join_comma [x] = x"
| "join_comma (x # y # xs) = x @ 44 # join_comma (y # xs)"

definition JSON_stringify_strings :: "jsstring list \<Rightarrow> jsvalue" where
  "JSON_stringify_strings xs =
     JSString (91 # join_comma (map (\<lambda>x. 34 # quoteUnits x @ [34]) xs) @ [93])"

section \<open>Example stores\<close>

definition example_question :: "int \<Rightarrow> int \<Rightarrow> string \<Rightarrow> question" where
  "example_question i n c =
     \<lparr>q_id = i, questionNumber = n, content = Some (js c),
      options = JArray [JString (js ''A''), JString (js ''B'')], answer = js ''A'',
      assessmentId = 1\<rparr>"

definition example_paper :: "unit assessment" where
  "example_paper =
     \<lparr>a_id = 1, title = JSString (js ''Midterm''), description = JSString (js ''Week 6''),
      courseUnit = JSString (js ''Algebra''), courseUnitCode = JSString (js ''MTH101''),
      duration = JSNumber 90, scheduledDate = (), startTime = (), endTime = (),
      createdBy = JSString (js ''staff''), courseId = 7, isDraft = True\<rparr>"

definition example_store :: "unit store" where
  "example_store =
     \<lparr>assessments = [example_paper],
      questions = [example_question 10 1 ''Q1'', example_question 11 2 ''Q2'',
                   example_question 12 3 ''Q3''],
      courses = [7], nextAssessmentId = 2, nextQuestionId = 13\<rparr>"

definition example_published_store :: "unit store" where
  "example_published_store = example_store\<lparr>assessments := [example_paper\<lparr>isDraft := False\<rparr>]\<rparr>"

definition example_store_other_answers :: "unit store" where
  "example_store_other_answers =
     example_store\<lparr>questions := map (\<lambda>q. q\<lparr>answer := js ''B''\<rparr>) (questions example_store)\<rparr>"

text \<open>A store with dates, for the uploads of the examples, and what they leave.\<close>

definition example_civil_paper :: "civil assessment" where
  "example_civil_paper =
     \<lparr>a_id = 1, title = JSString (js ''Quiz''), description = JSString (js ''Week 2''),
      courseUnit = JSString (js ''Algebra''), courseUnitCode = JSString (js ''MTH101''),
      duration = JSNumber 30,
      scheduledDate = \<lparr>year = 2024, month = 12, day = 2, hour = 0, minute = 0, second = 0\<rparr>,
      startTime = \<lparr>year = 2024, month = 12, day = 2, hour = 8, minute = 0, second = 0\<rparr>,
      endTime = \<lparr>year = 2024, month = 12, day = 2, hour = 8, minute = 30, second = 0\<rparr>,
      createdBy = JSString (js ''staff''), courseId = 7, isDraft = True\<rparr>"

definition example_upload_store :: "civil store" where
  "example_upload_store =
     \<lparr>assessments = [example_civil_paper], questions = questions example_store,
      courses = [7], nextAssessmentId = 2, nextQuestionId = 13\<rparr>"

definition example_split_row :: csv_row where
  "example_split_row =
     map_of [(js ''content'', js ''Q3''), (js ''answer'', js ''A''),
             (js ''options'', [32, 92, 34, 65, 92, 34, 44]), (js ''_3'', []),
             (js ''_4'', [92, 34, 66, 92, 34, 32])]"

text \<open>A row whose options cell is \<open>1,2\<close>.\<close>

definition example_number_row :: csv_row where
  "example_number_row = map_of [(js ''content'', js ''Q4''), (js ''options'', js ''1,2'')]"

definition example_created :: "question list" where
  "example_created =
     [\<lparr>q_id = 13, questionNumber = 1, content = Some (js ''Q1''),
       options = JArray [JString (js ''A''), JString (js ''B'')], answer = [],
       assessmentId = 2\<rparr>,
      \<lparr>q_id = 14, questionNumber = 2, content = Some (js ''Q2''),
       options = JArray [JString (js ''C'')], answer = [], assessmentId = 2\<rparr>]"

definition example_scheduled :: civil where
  "example_scheduled = \<lparr>year = 2025, month = 1, day = 1, hour = 0, minute = 0, second = 0\<rparr>"

definition example_start :: civil where
  "example_start = example_scheduled\<lparr>hour := 9\<rparr>"

definition example_end :: civil where
  "example_end = example_scheduled\<lparr>hour := 11\<rparr>"

definition example_uploaded :: "civil assessment" where
  "example_uploaded =
     \<lparr>a_id = 2, title = JSString (js ''Midterm''), description = JSString (js ''Week 6''),
      courseUnit = JSString (js ''Algebra''), courseUnitCode = JSString (js ''MTH101''),
      duration = JSNumber 120,
      scheduledDate = example_scheduled, startTime = example_start, endTime = example_end,
      createdBy = JSString (js ''staff''), courseId = 7, isDraft = False\<rparr>"

definition example_returned :: "jsstring assessment" where
  "example_returned =
     \<lparr>a_id = 2, title = JSString (js ''Midterm''), description = JSString (js ''Week 6''),
      courseUnit = JSString (js ''Algebra''), courseUnitCode = JSString (js ''MTH101''),
      duration = JSNumber 120, scheduledDate = js ''2025-01-01 00:00:00'',
      startTime = js ''09:00:00'', endTime = js ''11:00:00'',
      createdBy = JSString (js ''staff''), courseId = 7, isDraft = False\<rparr>"

definition example_after_upload :: "civil store" where
  "example_after_upload =
     \<lparr>assessments = [example_civil_paper, example_uploaded],
      questions = questions example_store @ example_created,
      courses = [7], nextAssessmentId = 3, nextQuestionId = 15\<rparr>"

definition example_parsed :: "parsedQuestion list" where
  "example_parsed =
     [\<lparr>pq_content = Some (js ''Q1''), pq_answer = [],
       pq_options = JArray [JString (js ''A''), JString (js ''B'')]\<rparr>,
      \<lparr>pq_content = Some (js ''Q2''), pq_answer = [],
       pq_options = JArray [JString (js ''C'')]\<rparr>]"

section \<open>Example manual assessments\<close>

definition example_manualAssessment :: manualAssessment where
  "example_manualAssessment =
     \<lparr>m_id = 1, m_title = JSString (js ''Quiz 1''), m_description = JSString (js ''Sets''),
      m_courseId = JSNumber 7, m_courseUnit = JSString (js ''Algebra''),
      m_courseUnitCode = JSString (js ''MTH101''), m_duration = JSNumber 45,
      m_scheduledDate = JSString (js ''2025-01-01''), m_startTime = JSString (js ''09:00''),
      m_endTime = JSString (js ''09:45''), m_createdBy = JSString (js ''staff'')\<rparr>"

definition example_questionManual :: questionManual where
  "example_questionManual =
     \<lparr>qm_id = 1, qm_questions = JSString (js ''Old question''),
      qm_options = JSString (js ''[\"A\",\"B\"]''), qm_correctAnswer = JSString (js ''A''),
      qm_assessmentId = 1\<rparr>"

definition example_manual_store :: manual_store where
  "example_manual_store =
     \<lparr>manualAssessments = [example_manualAssessment],
      questionManuals = [example_questionManual], nextQuestionManualId = 2\<rparr>"

definition example_questionDto :: "jsstring list questionDto" where
  "example_questionDto =
     \<lparr>questionText = JSString (js ''New question''), dto_options = [js ''C'', js ''D''],
      correctAnswer = JSString (js ''D'')\<rparr>"

definition example_update :: "jsstring list updateManualAssessmentDto" where
  "example_update =
     \<lparr>dto_title = JSString (js ''Quiz 1b''), dto_description = JSString [],
      dto_courseId = JSUndefined, dto_courseUnit = JSUndefined, dto_courseUnitCode = JSNull,
      dto_duration = JSNumber 0, dto_scheduledDate = JSUndefined, dto_startTime = JSUndefined,
      dto_endTime = JSUndefined, dto_createdBy = JSBool False,
      dto_questions = Some [example_questionDto]\<rparr>"

definition example_manual_store_updated :: manual_store where
  "example_manual_store_updated =
     \<lparr>manualAssessments = [example_manualAssessment\<lparr>m_title := JSString (js ''Quiz 1b'')\<rparr>],
      questionManuals =
        [example_questionManual,
         \<lparr>qm_id = 2, qm_questions = JSString (js ''New question''),
          qm_options = JSString (js ''[\"C\",\"D\"]''), qm_correctAnswer = JSString (js ''D''),
          qm_assessmentId = 1\<rparr>],
      nextQuestionManualId = 3\<rparr>"

section \<open>Renumbering after a deletion\<close>

lemma q_id_renum_row [simp]: "q_id (renum_row ks i r) = q_id r"
  by (induction ks arbitrary: i r) auto

lemma assessmentId_renum_row [simp]: "assessmentId (renum_row ks i r) = assessmentId r"
  by (induction ks arbitrary: i r) auto

lemma renum_row_notin: "q_id r \<notin> set ks \<Longrightarrow> renum_row ks i r = r"
  by (induction ks arbitrary: i) auto

lemma renumber_rows:
  "set (map q_id qs) \<subseteq> set (map q_id (questions s)) \<Longrightarrow>
   renumber qs i s = Inr (s\<lparr>questions := map (renum_row (map q_id qs) i) (questions s)\<rparr>)"
proof (induction qs arbitrary: i s)
  case Nil
  then show ?case by simp
next
  case (Cons q qs)
  let ?s' = "s\<lparr>questions :=
             map (\<lambda>r. if q_id r = q_id q then r\<lparr>questionNumber := i + 1\<rparr> else r) (questions s)\<rparr>"
  have upd: "question_update_number (q_id q) (i + 1) s = Inr ?s'"
    using Cons.prems by (simp add: question_update_number_def)
  have ids: "map q_id (questions ?s') = map q_id (questions s)"
    by (simp add: comp_def)
  have "set (map q_id qs) \<subseteq> set (map q_id (questions ?s'))"
    using Cons.prems unfolding ids by simp
  from Cons.IH [OF this, of "i + 1"] upd show ?case
    by (simp add: comp_def)
qed

lemma renum_row_number_from:
  "distinct (map q_id qs) \<Longrightarrow> map (renum_row (map q_id qs) i) qs = number_from (i + 1) qs"
proof (induction qs arbitrary: i)
  case Nil
  then show ?case by simp
next
  case (Cons q qs)
  have hd: "renum_row (map q_id (q # qs)) i q = q\<lparr>questionNumber := i + 1\<rparr>"
    using Cons.prems by (simp add: renum_row_notin)
  have tl: "map (renum_row (map q_id (q # qs)) i) qs = map (renum_row (map q_id qs) (i + 1)) qs"
  proof (intro map_cong refl)
    fix x assume "x \<in> set qs"
    then have "q_id x \<in> q_id ` set qs" by (rule imageI)
    moreover from Cons.prems have "q_id q \<notin> q_id ` set qs" by simp
    ultimately have "q_id x \<noteq> q_id q" by metis
    then show "renum_row (map q_id (q # qs)) i x = renum_row (map q_id qs) (i + 1) x" by simp
  qed
  have d: "distinct (map q_id qs)" using Cons.prems by simp
  have "map (renum_row (map q_id (q # qs)) i) (q # qs) =
        q\<lparr>questionNumber := i + 1\<rparr> # map (renum_row (map q_id qs) (i + 1)) qs"
    using hd tl by (simp only: list.map)
  also have "\<dots> = q\<lparr>questionNumber := i + 1\<rparr> # number_from (i + 1 + 1) qs"
    using Cons.IH [OF d, of "i + 1"] by (simp only:)
  finally show ?case by (simp only: number_from.simps)
qed

lemma map_questionNumber_number_from:
  "map questionNumber (number_from n qs) = [n .. n + int (length qs) - 1]"
proof (induction qs arbitrary: n)
  case Nil
  then show ?case by simp
next
  case (Cons q qs)
  have "[n .. n + int (length (q # qs)) - 1] = n # [n + 1 .. n + 1 + int (length qs) - 1]"
    by (subst upto_rec1) auto
  then show ?case using Cons.IH [of "n + 1"] by simp
qed

lemma length_number_from [simp]: "length (number_from n qs) = length qs"
  by (induction qs arbitrary: n) auto

lemma number_from_fields:
  "map (\<lambda>q. q\<lparr>questionNumber := 0\<rparr>) (number_from n qs) = map (\<lambda>q. q\<lparr>questionNumber := 0\<rparr>) qs"
  by (induction qs arbitrary: n) auto

lemma distinct_ids_sort_filter:
  "distinct (map q_id xs) \<Longrightarrow> distinct (map q_id (sort_key k (filter P xs)))"
  by (simp add: distinct_map distinct_map_filter inj_on_def)

lemma length_filter_neq_id:
  "distinct (map q_id xs) \<Longrightarrow> x \<in> set xs \<Longrightarrow>
   length (filter (\<lambda>y. q_id y \<noteq> q_id x) xs) = length xs - 1"
proof (induction xs)
  case Nil
  then show ?case by simp
next
  case (Cons a xs)
  show ?case
  proof (cases "a = x")
    case True
    from Cons.prems True have "q_id x \<notin> q_id ` set xs" by simp
    then have "\<forall>y \<in> set xs. q_id y \<noteq> q_id x" by (metis imageI)
    then have "filter (\<lambda>y. q_id y \<noteq> q_id x) xs = xs" by (simp add: filter_id_conv)
    with True show ?thesis by simp
  next
    case False
    with Cons.prems have xin: "x \<in> set xs" by simp
    from Cons.prems have "q_id a \<notin> q_id ` set xs" by simp
    with xin have "q_id a \<noteq> q_id x" by (metis imageI)
    moreover have "length xs > 0" using xin by (cases xs) auto
    ultimately show ?thesis using Cons.IH xin Cons.prems by simp
  qed
qed

lemma filter_renum_row:
  "filter (\<lambda>q. assessmentId q = aid) (map (renum_row ks i) xs) =
   map (renum_row ks i) (filter (\<lambda>q. assessmentId q = aid) xs)"
  by (simp add: filter_map comp_def)

lemma sorted_number_from: "sorted (map questionNumber (number_from n qs))"
  by (simp add: map_questionNumber_number_from)

lemma distinct_number_from: "distinct (map questionNumber (number_from n qs))"
  by (simp add: map_questionNumber_number_from)

lemma sort_renumbered:
  assumes d: "distinct (map q_id xs)"
  shows "sort_key questionNumber
           (map (renum_row (map q_id (sort_key questionNumber xs)) i) xs) =
         number_from (i + 1) (sort_key questionNumber xs)"
proof -
  let ?rem = "sort_key questionNumber xs"
  let ?R = "renum_row (map q_id ?rem) i"
  have drem: "distinct (map q_id ?rem)"
    using d by (simp add: distinct_map inj_on_def)
  have nf: "map ?R ?rem = number_from (i + 1) ?rem"
    using drem by (rule renum_row_number_from)
  have m: "mset (map ?R xs) = mset (number_from (i + 1) ?rem)"
    unfolding nf [symmetric] by simp
  have "set (map ?R xs) = set (number_from (i + 1) ?rem)"
    using m by (rule mset_eq_setD)
  moreover have "inj_on questionNumber (set (number_from (i + 1) ?rem))"
    using distinct_number_from [of "i + 1" ?rem] by (simp add: distinct_map)
  ultimately have inj: "inj_on questionNumber (set (map ?R xs))" by simp
  show ?thesis
    using m inj sorted_number_from by (rule sort_key_inj_key_eq)
qed

text \<open>
  C1: deleting an existing question from an existing assessment with \<open>N\<close> questions
  succeeds and leaves \<open>N - 1\<close> questions, numbered exactly \<open>1, ..., N - 1\<close>; read in
  number order they are the former questions in their former number order without the
  deleted one, every field but the number unchanged.
\<close>

theorem deleteQuestionById_renumbers:
  assumes u: "unique_ids s"
    and a: "findUnique_assessment s examPaperId = Some examPaper"
    and q: "q \<in> set (questions s)" "q_id q = questionId" "assessmentId q = examPaperId"
    and r: "deleteQuestionById questionId examPaperId s = (s', r)"
  shows "r = Inr (js ''Question deleted successfully and questions renumbered'') \<and>
         length (findMany_questions s' examPaperId) =
           length (findMany_questions s examPaperId) - 1 \<and>
         map questionNumber (findMany_questions s' examPaperId) =
           [1 .. int (length (findMany_questions s examPaperId)) - 1] \<and>
         map (\<lambda>q. q\<lparr>questionNumber := 0\<rparr>) (findMany_questions s' examPaperId) =
           map (\<lambda>q. q\<lparr>questionNumber := 0\<rparr>)
             (filter (\<lambda>q. q_id q \<noteq> questionId) (findMany_questions s examPaperId))"
proof -
  let ?A = "filter (\<lambda>q. assessmentId q = examPaperId) (questions s)"
  let ?Q = "findMany_questions s examPaperId"
  let ?A1 = "filter (\<lambda>q. q_id q \<noteq> questionId) ?A"
  let ?rem = "sort_key questionNumber (filter (\<lambda>q. q_id q \<noteq> questionId) ?Q)"
  let ?s1 = "s\<lparr>questions := filter (\<lambda>q. q_id q \<noteq> questionId) (questions s)\<rparr>"
  have d: "distinct (map q_id (questions s))" using u by (simp add: unique_ids_def)
  have Q: "?Q = sort_key questionNumber ?A" by (simp add: findMany_questions_def)
  have qQ: "q \<in> set ?Q" using q by (simp add: Q)
  have dQ: "distinct (map q_id ?Q)" unfolding Q using d by (rule distinct_ids_sort_filter)
  have fnd: "find (\<lambda>x. q_id x = questionId) ?Q \<noteq> None"
    using qQ q(2) by (auto simp: find_None_iff)
  have sortedQ: "sorted (map questionNumber (filter (\<lambda>q. q_id q \<noteq> questionId) ?Q))"
    unfolding Q by (simp add: sorted_filter)
  have rem: "?rem = filter (\<lambda>q. q_id q \<noteq> questionId) ?Q"
    using sortedQ by (rule sort_key_id_if_sorted)
  have rem': "?rem = sort_key questionNumber ?A1"
  proof -
    have "?rem = filter (\<lambda>q. q_id q \<noteq> questionId) (sort_key questionNumber ?A)"
      using rem by (simp only: Q)
    also have "\<dots> = sort_key questionNumber ?A1" by (rule filter_sort)
    finally show ?thesis .
  qed
  have del: "question_delete questionId s = Inr ?s1"
    using q by (auto simp: question_delete_def)
  have sub: "set (map q_id ?rem) \<subseteq> set (map q_id (questions ?s1))"
    unfolding rem Q by auto
  have ren: "renumber ?rem 0 ?s1 =
     Inr (?s1\<lparr>questions := map (renum_row (map q_id ?rem) 0) (questions ?s1)\<rparr>)"
    using sub by (rule renumber_rows)
  have tx: "deleteQuestion_tx questionId ?Q s =
     Inr (?s1\<lparr>questions := map (renum_row (map q_id ?rem) 0) (questions ?s1)\<rparr>)"
    unfolding deleteQuestion_tx_def del using ren by (simp add: Let_def)
  have res: "deleteQuestionById questionId examPaperId s =
     (?s1\<lparr>questions := map (renum_row (map q_id ?rem) 0) (questions ?s1)\<rparr>,
      Inr (js ''Question deleted successfully and questions renumbered''))"
    unfolding deleteQuestionById_def a using fnd tx by (auto simp: Let_def)
  have s': "s' = ?s1\<lparr>questions := map (renum_row (map q_id ?rem) 0) (questions ?s1)\<rparr>"
    and r': "r = Inr (js ''Question deleted successfully and questions renumbered'')"
    using r res by simp_all
  have A1: "filter (\<lambda>q. assessmentId q = examPaperId)
              (filter (\<lambda>q. q_id q \<noteq> questionId) (questions s)) = ?A1"
    by (simp add: conj_commute)
  have dA1: "distinct (map q_id ?A1)" using d by (simp add: distinct_map_filter)
  have "findMany_questions s' examPaperId =
        sort_key questionNumber (map (renum_row (map q_id ?rem) 0) ?A1)"
    unfolding s' findMany_questions_def by (simp add: filter_renum_row A1 del: filter_filter)
  also have "\<dots> = number_from (0 + 1) (sort_key questionNumber ?A1)"
    unfolding rem' using dA1 by (rule sort_renumbered)
  finally have new: "findMany_questions s' examPaperId = number_from 1 ?rem"
    by (simp add: rem')
  have len: "length ?rem = length ?Q - 1"
    unfolding rem using length_filter_neq_id [OF dQ qQ] q(2) by simp
  have Qpos: "length ?Q > 0" using qQ by (cases ?Q) auto
  have "int (length ?rem) = int (length ?Q) - 1" using len Qpos by linarith
  then
  have nums: "map questionNumber (number_from 1 ?rem) = [1 .. int (length ?Q) - 1]"
    by (simp add: map_questionNumber_number_from)
  show ?thesis
    unfolding new r' using len nums number_from_fields [of 1 ?rem] rem by simp
qed

theorem deleteQuestionById_renumbers_witness:
  "unique_ids example_store \<and>
   findUnique_assessment example_store 1 = Some example_paper \<and>
   example_question 11 2 ''Q2'' \<in> set (questions example_store) \<and>
   deleteQuestionById 11 1 example_store =
     (example_store\<lparr>questions := [example_question 10 1 ''Q1'', example_question 12 2 ''Q3'']\<rparr>,
      Inr (js ''Question deleted successfully and questions renumbered'')) \<and>
   map questionNumber
     (findMany_questions
        (example_store\<lparr>questions := [example_question 10 1 ''Q1'', example_question 12 2 ''Q3'']\<rparr>) 1) =
     [1 .. int (length (findMany_questions example_store 1)) - 1]"
proof -
  have u: "unique_ids example_store"
    by (simp add: unique_ids_def example_store_def example_question_def example_paper_def)
  have a: "findUnique_assessment example_store 1 = Some example_paper"
    by (simp add: findUnique_assessment_def example_store_def example_paper_def)
  have q: "example_question 11 2 ''Q2'' \<in> set (questions example_store)"
    by (simp add: example_store_def)
  have i: "q_id (example_question 11 2 ''Q2'') = 11" "assessmentId (example_question 11 2 ''Q2'') = 1"
    by (simp_all add: example_question_def)
  have r: "deleteQuestionById 11 1 example_store =
     (example_store\<lparr>questions := [example_question 10 1 ''Q1'', example_question 12 2 ''Q3'']\<rparr>,
      Inr (js ''Question deleted successfully and questions renumbered''))"
    by (simp add: deleteQuestionById_def deleteQuestion_tx_def findUnique_assessment_def
        findMany_questions_def question_delete_def question_update_number_def
        example_store_def example_question_def example_paper_def Let_def)
  from deleteQuestionById_renumbers [OF u a q i r] u a q r show ?thesis by simp
qed

section \<open>The options text of a row\<close>

lemma spec_strip_backslashes_eq: "spec_strip_backslashes s = replace_backslashes s"
  by (induction s) (simp_all add: replace_backslashes_def)

lemma spec_trim_front_eq: "spec_trim_front s = dropWhile js_whitespace s"
  by (induction s) simp_all

lemma spec_trim_eq: "spec_trim s = trim s"
  by (simp add: spec_trim_def trim_def spec_trim_front_eq)

lemma join_cells:
  "join_empty (filter Boolean (map (field data) fs)) =
   concat (map (\<lambda>f. case data f of None \<Rightarrow> [] | Some v \<Rightarrow> v) fs)"
  by (induction fs) (auto simp: join_empty_def field_def split: option.splits)

lemma spec_concatenated_eq:
  "spec_concatenated data = join_empty (filter Boolean (map (field data) optionFields))"
  unfolding join_cells by (simp add: spec_concatenated_def spec_cell_def optionFields_def)

lemma startsWith_single: "startsWith s [c] \<longleftrightarrow> (case s of [] \<Rightarrow> False | x # xs \<Rightarrow> x = c)"
  by (cases s) (simp_all add: startsWith_def)

lemma endsWith_single: "endsWith s [c] \<longleftrightarrow> s \<noteq> [] \<and> last s = c"
proof (cases s rule: rev_cases)
  case Nil
  then show ?thesis by (simp add: endsWith_def)
next
  case (snoc xs x)
  then show ?thesis by (auto simp: endsWith_def)
qed

lemma repair_brackets_eq:
  "(let combined = (if \<not> startsWith s [91] then 91 # s else s);
        combined = (if \<not> endsWith combined [93] then combined @ [93] else combined)
    in combined) = spec_repair_brackets s"
  by (cases s) (auto simp: spec_repair_brackets_def startsWith_single endsWith_single Let_def)

lemma combinedOptions_eq: "combinedOptions data = spec_options_text data"
  unfolding combinedOptions_def spec_options_text_def
  by (simp only: Let_def repair_brackets_eq [unfolded Let_def] spec_trim_eq
      spec_strip_backslashes_eq spec_concatenated_eq)

lemma answer_or_empty:
  "text_of (js_or (field data f) (JSString [])) = (case data f of None \<Rightarrow> [] | Some a \<Rightarrow> a)"
  by (simp add: field_def js_or_def split: option.splits)

lemma on_data_eq:
  "on_data results data = (case spec_row data of None \<Rightarrow> results | Some q \<Rightarrow> results @ [q])"
  by (simp add: on_data_def spec_row_def combinedOptions_eq answer_or_empty split: option.splits)

section \<open>A text that opens with a bracket parses to an array\<close>

lemma in_array_simps:
  "in_array (PDone v) st \<longleftrightarrow> st = [] \<and> is_array v"
  "in_array PValue st \<longleftrightarrow> st \<noteq> [] \<and> is_array_frame (last st)"
  "in_array PValueOrEnd st \<longleftrightarrow> st \<noteq> [] \<and> is_array_frame (last st)"
  "in_array PKeyOrEnd st \<longleftrightarrow> st \<noteq> [] \<and> is_array_frame (last st)"
  "in_array PKey st \<longleftrightarrow> st \<noteq> [] \<and> is_array_frame (last st)"
  "in_array PColon st \<longleftrightarrow> st \<noteq> [] \<and> is_array_frame (last st)"
  "in_array PAfter st \<longleftrightarrow> st \<noteq> [] \<and> is_array_frame (last st)"
  by (simp_all add: in_array_def)

lemma put_value_in_array:
  "st \<noteq> [] \<Longrightarrow> is_array_frame (last st) \<Longrightarrow> put_value v st = Some (p', st') \<Longrightarrow>
   in_array p' st'"
  by (induction v st rule: put_value.induct) (auto simp: in_array_simps split: if_splits)

lemma close_array_in_array:
  "st \<noteq> [] \<Longrightarrow> is_array_frame (last st) \<Longrightarrow> close_array st = Some (p', st') \<Longrightarrow>
   in_array p' st'"
proof (induction st rule: close_array.induct)
  case (1 xs st)
  show ?case
  proof (cases "st = []")
    case True
    with 1 show ?thesis by (auto simp: in_array_simps)
  next
    case False
    with 1 show ?thesis by (auto intro: put_value_in_array)
  qed
qed simp_all

lemma close_object_in_array:
  "st \<noteq> [] \<Longrightarrow> is_array_frame (last st) \<Longrightarrow> close_object st = Some (p', st') \<Longrightarrow>
   in_array p' st'"
proof (induction st rule: close_object.induct)
  case (1 ms st)
  then have "st \<noteq> []" by (cases st) auto
  with 1 show ?case by (auto intro: put_value_in_array)
qed simp_all

lemma start_value_in_array:
  "st \<noteq> [] \<Longrightarrow> is_array_frame (last st) \<Longrightarrow> start_value t st = Some (p', st') \<Longrightarrow>
   in_array p' st'"
  by (cases t) (auto simp: in_array_simps intro: put_value_in_array)

lemma parse_step_in_array:
  assumes "in_array p st" and "parse_step p st t = Some (p', st')"
  shows "in_array p' st'"
proof (cases p)
  case (PDone v)
  with assms show ?thesis by simp
next
  case PValue
  with assms show ?thesis by (auto simp: in_array_simps intro: start_value_in_array)
next
  case PValueOrEnd
  with assms show ?thesis
    by (auto simp: in_array_simps split: if_splits
        intro: start_value_in_array close_array_in_array)
next
  case PKeyOrEnd
  with assms show ?thesis
    by (cases t) (auto simp: in_array_simps intro: close_object_in_array)
next
  case PKey
  with assms show ?thesis by (cases t) (auto simp: in_array_simps)
next
  case PColon
  with assms show ?thesis by (auto simp: in_array_simps split: if_splits)
next
  case PAfter
  with assms show ?thesis
    by (cases t)
       (auto simp: in_array_simps split: list.splits frame.splits
         intro: close_array_in_array close_object_in_array)
qed

lemma parse_tokens_in_array:
  "in_array p st \<Longrightarrow> parse_tokens p st ts = Some v \<Longrightarrow> is_array v"
proof (induction ts arbitrary: p st)
  case Nil
  then show ?case by (cases p) (auto simp: in_array_simps)
next
  case (Cons t ts)
  then show ?case
    by (auto split: option.splits dest: parse_step_in_array)
qed

lemma JSON_parse_bracket: "JSON_parse (91 # cs) = Some v \<Longrightarrow> is_array v"
proof -
  assume a: "JSON_parse (91 # cs) = Some v"
  then obtain ts where "lex LStart cs = Some ts"
    and "parse_tokens PValueOrEnd [FArray []] ts = Some v"
    by (auto simp: JSON_parse_def lex_start_def split: option.splits)
  moreover have "in_array PValueOrEnd [FArray []]" by (simp add: in_array_simps)
  ultimately show ?thesis by (blast intro: parse_tokens_in_array)
qed

lemma spec_repair_brackets_opens: "\<exists>cs. spec_repair_brackets s = 91 # cs"
  by (cases s) (auto simp: spec_repair_brackets_def Let_def)

section \<open>The examples, evaluated\<close>

lemmas js_string_defs =
  js_def trim_def trimStart_def replace_backslashes_def startsWith_def endsWith_def
  js_whitespace_def split_colon_def

lemmas json_defs = JSON_parse_def lex_start_def is_digit_def escape_value_def

lemma example_texts:
  "combinedOptions (hd example_rows) = js ''[\"A\",\"B\"]''"
  "combinedOptions (last example_rows) = js ''[\"C\"]''"
  "combinedOptions example_bad_row = js ''[A,B]''"
  by (simp_all add: combinedOptions_def optionFields_def field_def join_empty_def
      example_rows_def example_bad_row_def js_string_defs)

lemma example_json:
  "JSON_parse (js ''[\"A\",\"B\"]'') = Some (JArray [JString (js ''A''), JString (js ''B'')])"
  "JSON_parse (js ''[\"C\"]'') = Some (JArray [JString (js ''C'')])"
  "JSON_parse (js ''[A,B]'') = None"
  by (simp_all add: json_defs js_def)

lemma example_survives: "\<not> survives example_bad_row" "survives (hd example_rows)"
  "survives (last example_rows)"
  by (simp_all add: survives_def example_texts example_json)

lemma example_on_data:
  "on_data results (hd example_rows) = results @ [hd example_parsed]"
  "on_data results (last example_rows) = results @ [last example_parsed]"
  "on_data results example_bad_row = results"
  by (simp_all add: on_data_def example_texts example_json)
     (simp_all add: example_rows_def example_parsed_def field_def js_or_def js_def)

lemma example_parseCsv:
  "parseCsv example_env (path example_file) = Some (Inr example_parsed)"
  "parseCsv example_env (path example_mixed_file) = Some (Inr example_parsed)"
  "parseCsv example_env (path example_bad_file) = Some (Inr [])"
proof -
  have r: "example_rows = [hd example_rows, last example_rows]"
    by (simp add: example_rows_def)
  have p: "example_parsed = [hd example_parsed, last example_parsed]"
    by (simp add: example_parsed_def)
  have "foldl on_data [] [hd example_rows, last example_rows] = example_parsed"
    by (subst p) (simp add: example_on_data)
  then show "parseCsv example_env (path example_file) = Some (Inr example_parsed)"
    using r by (simp add: parseCsv_def example_env_def example_readCsv_def example_file_def js_def)
  have "foldl on_data [] example_mixed_rows = example_parsed"
    unfolding example_mixed_rows_def by (subst p) (simp add: example_on_data)
  then show "parseCsv example_env (path example_mixed_file) = Some (Inr example_parsed)"
    by (simp add: parseCsv_def example_env_def example_readCsv_def example_mixed_file_def js_def)
  show "parseCsv example_env (path example_bad_file) = Some (Inr [])"
    by (simp add: parseCsv_def example_env_def example_readCsv_def example_bad_file_def js_def
        example_on_data)
qed

lemmas moment_defs =
  example_momentParse_def example_momentSetClock_def example_momentFormat_def all_digits_def
  is_digit_def decimal_value_def digits_value_def digit_value_def days_in_month_def
  leap_year_def next_day_def pad2_def pad4_def

lemma example_moments:
  "momentParse example_env (js ''2025-01-01 00:00:00'') (js ''YYYY-MM-DD HH:mm:ss'') True =
     Some example_scheduled"
  "momentParse example_env (js ''2025-13-40'') (js ''YYYY-MM-DD HH:mm:ss'') True = None"
  by (simp_all add: example_env_def moment_defs js_def Let_def example_scheduled_def)

lemma example_clocks:
  "split_colon (js ''09:00:00'') = [js ''09'', js ''00'', js ''00'']"
  "split_colon (js ''11:00:00'') = [js ''11'', js ''00'', js ''00'']"
  "momentSetClock example_env example_scheduled (js ''09'') (js ''00'') (js ''00'') =
     Some example_start"
  "momentSetClock example_env example_scheduled (js ''11'') (js ''00'') (js ''00'') =
     Some example_end"
  by (simp_all add: example_env_def moment_defs js_string_defs example_scheduled_def
      example_start_def example_end_def)

lemma example_parseInt: "parseInt (js ''7'') = Some 7"
  by (simp add: parseInt_def parseInt_unsigned_def is_digit_of_def digit_value_def
      digits_value_def js_string_defs Let_def)

lemma example_upload_tx:
  "upload_tx example_env example_dto example_parsed example_scheduled example_start example_end
     example_upload_store =
   Inr (example_after_upload, (example_returned, example_created))"
proof -
  have c: "parseInt (up_courseId example_dto) = Some 7"
    by (simp add: example_dto_def example_parseInt)
  show ?thesis
    unfolding upload_tx_def c
    by (simp add: assessment_create_def example_upload_store_def example_dto_def Let_def
        example_parsed_def js_or_def findUnique_assessment_def findMany_questions_def
        example_civil_paper_def example_store_def example_question_def
        example_env_def example_momentFormat_def pad2_def pad4_def js_def
        example_scheduled_def example_start_def example_end_def
        example_after_upload_def example_uploaded_def example_returned_def example_created_def)
qed

lemma example_file_ok:
  "endsWith (originalname example_file) (js ''.csv'')"
  "endsWith (originalname example_mixed_file) (js ''.csv'')"
  "endsWith (originalname example_bad_file) (js ''.csv'')"
  by (simp_all add: example_file_def example_mixed_file_def example_bad_file_def endsWith_def
      js_def)

lemma example_parsed_nonempty: "example_parsed \<noteq> []" "length example_parsed \<noteq> 0"
  by (simp_all add: example_parsed_def)

lemma example_upload:
  "uploadExamPaper example_env (Some example_file) example_dto example_upload_store =
     (example_after_upload, Some (Inr (example_returned, example_created)))"
proof -
  have d: "up_scheduledDate example_dto = js ''2025-01-01 00:00:00''"
    "up_startTime example_dto = js ''09:00:00''" "up_endTime example_dto = js ''11:00:00''"
    by (simp_all add: example_dto_def)
  show ?thesis
    unfolding uploadExamPaper_def
    by (simp add: example_file_ok example_parseCsv example_parsed_nonempty d example_moments
        example_clocks Let_def example_upload_tx)
qed



section \<open>Parsing the rows of a file\<close>

text \<open>
  C3, as stated: the repaired text of every row is parsed as an array of option strings.
  The service takes whatever \<open>JSON.parse\<close> returns: a row whose options cell is \<open>1,2\<close>
  is kept, with the array of the numbers 1 and 2 as its options.
\<close>

theorem parseCsv_options_text_counterexample:
  "combinedOptions example_number_row = js ''[1,2]'' \<and>
   map pq_options (on_data [] example_number_row) =
     [JArray [JNumber (js ''1''), JNumber (js ''2'')]] \<and>
   \<not> is_string_array (JArray [JNumber (js ''1''), JNumber (js ''2'')])"
proof -
  have t: "combinedOptions example_number_row = js ''[1,2]''"
    by (simp add: combinedOptions_def optionFields_def field_def join_empty_def
        example_number_row_def js_string_defs)
  have j: "JSON_parse (js ''[1,2]'') = Some (JArray [JNumber (js ''1''), JNumber (js ''2'')])"
    by (simp add: json_defs js_def)
  show ?thesis
    by (simp add: on_data_def t j)
qed

text \<open>
  C3, amended: for every row the text handed to \<open>JSON.parse\<close> is the one the
  specification describes: the cells \<open>options\<close>, \<open>_3\<close>, \<open>_4\<close>, \<open>_5\<close>, \<open>_6\<close>, \<open>_7\<close>
  joined in that order without the falsy ones, backslashes stripped, white space trimmed,
  \<open>[\<close> put in front unless it is there and \<open>]\<close> put behind unless it is there. The row
  yields a record exactly when that text is JSON; its options are the parsed value, which
  is always an array, of elements of any JSON kind (they are not checked to be strings),
  and its answer is the cell \<open>answer\<close>, empty when the cell is absent.
\<close>

theorem parseCsv_options_text:
  "combinedOptions data = spec_options_text data \<and>
   on_data results data = (case spec_row data of None \<Rightarrow> results | Some q \<Rightarrow> results @ [q]) \<and>
   (\<forall>v. JSON_parse (combinedOptions data) = Some v \<longrightarrow> is_array v)"
proof -
  have "is_array v" if "JSON_parse (combinedOptions data) = Some v" for v
  proof -
    obtain cs where "spec_options_text data = 91 # cs"
      unfolding spec_options_text_def using spec_repair_brackets_opens by blast
    with that have "JSON_parse (91 # cs) = Some v"
      by (simp add: combinedOptions_eq)
    then show ?thesis by (rule JSON_parse_bracket)
  qed
  then show ?thesis by (simp add: combinedOptions_eq on_data_eq)
qed

theorem parseCsv_options_text_witness:
  "spec_row example_split_row =
     Some \<lparr>pq_content = Some (js ''Q3''), pq_answer = js ''A'',
           pq_options = JArray [JString (js ''A''), JString (js ''B'')]\<rparr> \<and>
   combinedOptions example_split_row = js ''[\"A\",\"B\"]'' \<and>
   is_array (JArray [JString (js ''A''), JString (js ''B'')])"
proof -
  have t: "spec_options_text example_split_row = js ''[\"A\",\"B\"]''"
    by (simp add: spec_options_text_def spec_repair_brackets_def spec_trim_def
        spec_concatenated_def spec_cell_def example_split_row_def js_def js_whitespace_def)
  have r: "spec_row example_split_row =
     Some \<lparr>pq_content = Some (js ''Q3''), pq_answer = js ''A'',
           pq_options = JArray [JString (js ''A''), JString (js ''B'')]\<rparr>"
    unfolding spec_row_def t example_json
    by (simp add: example_split_row_def js_def)
  have j: "JSON_parse (combinedOptions example_split_row) =
           Some (JArray [JString (js ''A''), JString (js ''B'')])"
    using parseCsv_options_text [of example_split_row "[]"] t example_json(1) by simp
  from parseCsv_options_text [of example_split_row "[]"] j r t show ?thesis by simp
qed

section \<open>Rows that do not parse\<close>

lemma on_data_skip: "\<not> survives data \<Longrightarrow> on_data results data = results"
  by (simp add: on_data_def survives_def)

lemma on_data_keep: "survives data \<Longrightarrow> \<exists>q. on_data results data = results @ [q]"
  by (auto simp: on_data_def survives_def)

lemma foldl_on_data_append: "foldl on_data acc rows = acc @ foldl on_data [] rows"
proof (induction rows arbitrary: acc)
  case Nil
  then show ?case by simp
next
  case (Cons r rows)
  have "foldl on_data acc (r # rows) = on_data acc r @ foldl on_data [] rows"
    using Cons.IH [of "on_data acc r"] by simp
  moreover have "foldl on_data [] (r # rows) = on_data [] r @ foldl on_data [] rows"
    using Cons.IH [of "on_data [] r"] by simp
  moreover have "on_data acc r = acc @ on_data [] r"
    by (simp add: on_data_def split: option.splits)
  ultimately show ?case by simp
qed

lemma foldl_on_data_Cons:
  "foldl on_data [] (r # rows) = on_data [] r @ foldl on_data [] rows"
  using foldl_on_data_append [of "on_data [] r" rows] by simp

lemma foldl_on_data_app:
  "foldl on_data [] (xs @ ys) = foldl on_data [] xs @ foldl on_data [] ys"
  using foldl_on_data_append [of "foldl on_data [] xs" ys] by simp

lemma foldl_on_data_skip:
  "\<not> survives bad \<Longrightarrow>
   foldl on_data [] (before @ bad # after) = foldl on_data [] (before @ after)"
  by (simp add: foldl_on_data_app foldl_on_data_Cons on_data_skip del: foldl_Cons foldl_append)

lemma length_foldl_on_data:
  "length (foldl on_data [] rows) = length (filter survives rows)"
proof (induction rows)
  case Nil
  then show ?case by simp
next
  case (Cons r rows)
  show ?case
  proof (cases "survives r")
    case True
    then obtain q where "on_data [] r = [q]" using on_data_keep [of r "[]"] by auto
    then have "foldl on_data [] (r # rows) = q # foldl on_data [] rows"
      by (simp only: foldl_on_data_Cons append_Cons append_Nil)
    with True Cons show ?thesis by (simp del: foldl_Cons)
  next
    case False
    then have "foldl on_data [] (r # rows) = foldl on_data [] rows"
      by (simp add: foldl_on_data_Cons on_data_skip del: foldl_Cons)
    with False Cons show ?thesis by (simp del: foldl_Cons)
  qed
qed

section \<open>The ways an upload fails\<close>

lemma error_messages_differ:
  "EmptyQuestionSet \<noteq> InvalidFile" "EmptyQuestionSet \<noteq> InvalidScheduleFormat"
  "EmptyQuestionSet \<noteq> InvalidTimeFormat" "InvalidScheduleFormat \<noteq> InvalidFile"
  "InvalidScheduleFormat \<noteq> InvalidTimeFormat"
  "EmptyQuestionSet \<noteq> PrismaValidationError" "EmptyQuestionSet \<noteq> PrismaRecordNotFound"
  "EmptyQuestionSet \<noteq> TypeError"
  by (simp_all add: EmptyQuestionSet_def InvalidFile_def InvalidScheduleFormat_def
      InvalidTimeFormat_def js_def)

lemma upload_tx_errors:
  "upload_tx e dto qs scheduled startMoment endMoment s = Inl err \<Longrightarrow>
   err = PrismaValidationError \<or> err = PrismaRecordNotFound \<or> err = TypeError"
  by (auto simp: upload_tx_def assessment_create_def Let_def
      split: option.splits if_splits sum.splits prod.splits)

lemma upload_after_parse:
  assumes "endsWith (originalname f) (js ''.csv'')" and "parseCsv e (path f) = Some (Inr qs)"
    and "qs \<noteq> []"
  shows "snd (uploadExamPaper e (Some f) dto s) \<noteq> Some (Inl EmptyQuestionSet)"
proof
  assume a: "snd (uploadExamPaper e (Some f) dto s) = Some (Inl EmptyQuestionSet)"
  have "snd (uploadExamPaper e (Some f) dto s) = Some (Inl InvalidScheduleFormat) \<or>
        snd (uploadExamPaper e (Some f) dto s) = Some (Inl InvalidTimeFormat) \<or>
        (\<exists>sch st en err. upload_tx e dto qs sch st en s = Inl err \<and>
           snd (uploadExamPaper e (Some f) dto s) = Some (Inl err)) \<or>
        (\<exists>r. snd (uploadExamPaper e (Some f) dto s) = Some (Inr r))"
    using assms
    by (auto simp: uploadExamPaper_def Let_def split: option.splits sum.splits prod.splits)
  with a show False
    using error_messages_differ by (auto dest: upload_tx_errors)
qed

text \<open>
  C4: for a file with a \<open>.csv\<close> name whose stream delivers its rows, parsing returns one
  record per row whose repaired options text is JSON; a row whose text is not JSON is
  skipped, the result being that of the file without the row; and the upload fails with
  \<open>No valid questions found in CSV\<close> if and only if no row survives.
\<close>

theorem parseCsv_skips_unparsable_rows:
  assumes "endsWith (originalname f) (js ''.csv'')" and "readCsv e (path f) = CsvEnd rows"
  shows "(\<exists>qs. parseCsv e (path f) = Some (Inr qs) \<and> length qs = length (filter survives rows)) \<and>
         (\<forall>before bad after. rows = before @ bad # after \<and> \<not> survives bad \<longrightarrow>
            parseCsv e (path f) = Some (Inr (foldl on_data [] (before @ after)))) \<and>
         (snd (uploadExamPaper e (Some f) dto s) = Some (Inl EmptyQuestionSet) \<longleftrightarrow>
            filter survives rows = [])"
proof -
  have p: "parseCsv e (path f) = Some (Inr (foldl on_data [] rows))"
    using assms(2) by (simp add: parseCsv_def)
  have c1: "\<exists>qs. parseCsv e (path f) = Some (Inr qs) \<and> length qs = length (filter survives rows)"
    using p length_foldl_on_data by simp
  have c2: "\<forall>before bad after. rows = before @ bad # after \<and> \<not> survives bad \<longrightarrow>
            parseCsv e (path f) = Some (Inr (foldl on_data [] (before @ after)))"
    using p foldl_on_data_skip by simp
  have e: "foldl on_data [] rows = [] \<longleftrightarrow> filter survives rows = []"
    using length_foldl_on_data [of rows] by (metis length_0_conv)
  have c3: "snd (uploadExamPaper e (Some f) dto s) = Some (Inl EmptyQuestionSet) \<longleftrightarrow>
            filter survives rows = []"
  proof (cases "foldl on_data [] rows = []")
    case True
    then have "snd (uploadExamPaper e (Some f) dto s) = Some (Inl EmptyQuestionSet)"
      using assms(1) p by (simp add: uploadExamPaper_def)
    with True e show ?thesis by simp
  next
    case False
    with upload_after_parse [OF assms(1) p] e show ?thesis by simp
  qed
  from c1 c2 c3 show ?thesis by blast
qed

theorem parseCsv_skips_unparsable_rows_witness:
  "endsWith (originalname example_mixed_file) (js ''.csv'') \<and>
   readCsv example_env (path example_mixed_file) =
     CsvEnd ([hd example_rows] @ example_bad_row # [last example_rows]) \<and>
   \<not> survives example_bad_row \<and>
   parseCsv example_env (path example_mixed_file) =
     Some (Inr (foldl on_data [] ([hd example_rows] @ [last example_rows]))) \<and>
   parseCsv example_env (path example_mixed_file) = parseCsv example_env (path example_file) \<and>
   snd (uploadExamPaper example_env (Some example_mixed_file) example_dto example_upload_store)
     \<noteq> Some (Inl EmptyQuestionSet)"
proof -
  have r: "readCsv example_env (path example_mixed_file) =
           CsvEnd ([hd example_rows] @ example_bad_row # [last example_rows])"
    by (simp add: example_env_def example_readCsv_def example_mixed_file_def
        example_mixed_rows_def js_def)
  have f: "filter survives ([hd example_rows] @ example_bad_row # [last example_rows]) \<noteq> []"
    by (simp add: example_survives)
  from parseCsv_skips_unparsable_rows [OF example_file_ok(2) r,
      of example_dto example_upload_store] f example_survives(1)
  have "parseCsv example_env (path example_mixed_file) =
          Some (Inr (foldl on_data [] ([hd example_rows] @ [last example_rows])))"
    and "snd (uploadExamPaper example_env (Some example_mixed_file) example_dto
           example_upload_store) \<noteq> Some (Inl EmptyQuestionSet)"
    by blast+
  with example_file_ok(2) r example_survives(1) example_parseCsv show ?thesis by simp
qed

section \<open>An upload with a malformed date\<close>







section \<open>What a successful upload writes\<close>

lemma text_of_or_empty: "text_of (js_or (JSString a) (JSString [])) = a"
  by (simp add: js_or_def)

lemma create_questions_rows:
  "create_questions aid i qs s =
   s\<lparr>questions := questions s @ created_rows aid i (nextQuestionId s) qs,
     nextQuestionId := nextQuestionId s + int (length qs)\<rparr>"
proof (induction qs arbitrary: i s)
  case Nil
  then show ?case by simp
next
  case (Cons q qs)
  show ?case
    by (simp add: Cons.IH text_of_or_empty add.assoc)
qed

lemma length_created_rows [simp]: "length (created_rows aid i k qs) = length qs"
  by (induction qs arbitrary: i k) simp_all

lemma questionNumber_created_rows:
  "map questionNumber (created_rows aid i k qs) = [i + 1 .. i + int (length qs)]"
proof (induction qs arbitrary: i k)
  case Nil
  then show ?case by simp
next
  case (Cons q qs)
  have "[i + 1 .. i + int (length (q # qs))] = (i + 1) # [i + 1 + 1 .. i + 1 + int (length qs)]"
    by (subst upto_rec1) (auto simp: add.assoc)
  then show ?case using Cons.IH [of "i + 1" "k + 1"] by simp
qed

lemma fields_created_rows:
  "map content (created_rows aid i k qs) = map pq_content qs"
  "map options (created_rows aid i k qs) = map pq_options qs"
  "map answer (created_rows aid i k qs) = map pq_answer qs"
  "map assessmentId (created_rows aid i k qs) = replicate (length qs) aid"
  by (induction qs arbitrary: i k) simp_all

lemma filter_created_rows:
  "filter (\<lambda>q. assessmentId q = aid) (created_rows aid i k qs) = created_rows aid i k qs"
  by (induction qs arbitrary: i k) simp_all

lemma sort_created_rows:
  "sort_key questionNumber (created_rows aid i k qs) = created_rows aid i k qs"
  by (rule sort_key_id_if_sorted) (simp add: questionNumber_created_rows)

lemma find_assessment_id:
  "findUnique_assessment s i = Some a \<Longrightarrow> a_id a = i"
  by (auto simp: findUnique_assessment_def find_Some_iff)

text \<open>A successful upload, step by step.\<close>

lemma upload_success:
  assumes "uploadExamPaper e file dto s = (s', Some (Inr r))"
  shows "\<exists>f qs scheduled startMoment endMoment.
           file = Some f \<and> parseCsv e (path f) = Some (Inr qs) \<and> qs \<noteq> [] \<and>
           upload_tx e dto qs scheduled startMoment endMoment s = Inr (s', r)"
  using assms
  by (auto simp: uploadExamPaper_def Let_def
      split: option.splits sum.splits prod.splits if_splits)

lemma upload_tx_success:
  assumes "upload_tx e dto qs scheduled startMoment endMoment s = Inr (s', r)"
  shows "\<exists>a. a_id a = nextAssessmentId s \<and> isDraft a = Boolean (up_isDraft dto) \<and>
           assessments s' = assessments s @ [a] \<and>
           questions s' =
             questions s @ created_rows (nextAssessmentId s) 0 (nextQuestionId s) qs \<and>
           a_id (fst r) = nextAssessmentId s \<and>
           snd r = findMany_questions s' (nextAssessmentId s) \<and>
           (\<exists>b. findUnique_assessment s' (nextAssessmentId s) = Some b \<and>
                isDraft (fst r) = isDraft b)"
proof -
  from assms obtain c where c: "parseInt (up_courseId dto) = Some c" "c \<in> set (courses s)"
    by (auto simp: upload_tx_def assessment_create_def split: option.splits if_splits)
  let ?a = "\<lparr>a_id = nextAssessmentId s, title = up_title dto, description = up_description dto,
              courseUnit = up_courseUnit dto, courseUnitCode = up_courseUnitCode dto,
              duration = up_duration dto, scheduledDate = scheduled, startTime = startMoment,
              endTime = endMoment, createdBy = up_createdBy dto, courseId = c,
              isDraft = Boolean (up_isDraft dto)\<rparr>"
  let ?s1 = "s\<lparr>assessments := assessments s @ [?a], nextAssessmentId := nextAssessmentId s + 1\<rparr>"
  let ?s2 = "create_questions (nextAssessmentId s) 0 qs ?s1"
  have cr: "assessment_create
             \<lparr>a_id = 0, title = up_title dto, description = up_description dto,
              courseUnit = up_courseUnit dto, courseUnitCode = up_courseUnitCode dto,
              duration = up_duration dto, scheduledDate = scheduled, startTime = startMoment,
              endTime = endMoment, createdBy = up_createdBy dto, courseId = 0,
              isDraft = Boolean (up_isDraft dto)\<rparr>
             (parseInt (up_courseId dto)) s = Inr (?s1, ?a)"
    using c by (simp add: assessment_create_def Let_def)
  from assms obtain b where b: "findUnique_assessment ?s2 (nextAssessmentId s) = Some b"
    and s': "s' = ?s2"
    and r1: "isDraft (fst r) = isDraft b" "a_id (fst r) = a_id b"
    and r2: "snd r = findMany_questions ?s2 (nextAssessmentId s)"
    unfolding upload_tx_def cr by (auto simp: Let_def split: option.splits)
  have s2: "?s2 = ?s1\<lparr>questions := questions s @ created_rows (nextAssessmentId s) 0 (nextQuestionId s) qs,
                       nextQuestionId := nextQuestionId s + int (length qs)\<rparr>"
    by (simp add: create_questions_rows)
  have "assessments s' = assessments s @ [?a]" unfolding s' s2 by simp
  moreover have "questions s' =
       questions s @ created_rows (nextAssessmentId s) 0 (nextQuestionId s) qs"
    unfolding s' s2 by simp
  moreover have "a_id (fst r) = nextAssessmentId s"
    using r1(2) find_assessment_id [OF b] by simp
  ultimately show ?thesis
    using b r1(1) r2 s' by (intro exI [of _ ?a]) auto
qed

lemma find_fresh_assessment:
  "\<forall>b \<in> set xs. a_id b \<noteq> i \<Longrightarrow> a_id a = i \<Longrightarrow> find (\<lambda>b. a_id b = i) (xs @ [a]) = Some a"
  by (induction xs) auto

text \<open>
  C2: a successful upload has a file whose parse gave \<open>N\<close> records, and adds to the
  question table exactly \<open>N\<close> rows, numbered \<open>1, ..., N\<close> in the order of the records,
  each with the content, options and answer of its record and linked to the new
  assessment; when no earlier row is linked to the new key these are the questions
  returned.
\<close>

theorem uploadExamPaper_numbers_questions:
  assumes "uploadExamPaper e file dto s = (s', Some (Inr (paper, returned)))"
  shows "\<exists>f qs created.
           file = Some f \<and> parseCsv e (path f) = Some (Inr qs) \<and>
           questions s' = questions s @ created \<and>
           length created = length qs \<and>
           map questionNumber created = [1 .. int (length qs)] \<and>
           map content created = map pq_content qs \<and>
           map options created = map pq_options qs \<and>
           map answer created = map pq_answer qs \<and>
           map assessmentId created = replicate (length qs) (a_id paper) \<and>
           ((\<forall>q \<in> set (questions s). assessmentId q \<noteq> a_id paper) \<longrightarrow> returned = created)"
proof -
  from upload_success [OF assms] obtain f qs scheduled startMoment endMoment
    where f: "file = Some f" "parseCsv e (path f) = Some (Inr qs)"
      and tx: "upload_tx e dto qs scheduled startMoment endMoment s = Inr (s', (paper, returned))"
    by blast
  let ?aid = "nextAssessmentId s"
  let ?created = "created_rows ?aid 0 (nextQuestionId s) qs"
  from upload_tx_success [OF tx]
  have q: "questions s' = questions s @ ?created"
    and i: "a_id paper = ?aid"
    and r: "returned = findMany_questions s' ?aid"
    by auto
  have "returned = ?created" if "\<forall>q \<in> set (questions s). assessmentId q \<noteq> a_id paper"
  proof -
    from that i have "filter (\<lambda>q. assessmentId q = ?aid) (questions s) = []"
      by (simp add: filter_empty_conv)
    then show ?thesis
      unfolding r findMany_questions_def q
      by (simp add: filter_created_rows sort_created_rows)
  qed
  with f q i show ?thesis
    by (intro exI [of _ f] exI [of _ qs] exI [of _ ?created])
       (simp add: questionNumber_created_rows fields_created_rows)
qed

theorem uploadExamPaper_numbers_questions_witness:
  "uploadExamPaper example_env (Some example_file) example_dto example_upload_store =
     (example_after_upload, Some (Inr (example_returned, example_created))) \<and>
   parseCsv example_env (path example_file) = Some (Inr example_parsed) \<and>
   questions example_after_upload = questions example_upload_store @ example_created \<and>
   map questionNumber example_created = [1 .. int (length example_parsed)] \<and>
   map questionNumber example_created = [1, 2] \<and>
   map content example_created = map pq_content example_parsed"
proof -
  have old: "\<forall>q \<in> set (questions example_upload_store). assessmentId q \<noteq> a_id example_returned"
    by (simp add: example_upload_store_def example_store_def example_question_def
        example_returned_def)
  from uploadExamPaper_numbers_questions [OF example_upload] old
  obtain f qs created where "Some example_file = Some f" "parseCsv example_env (path f) = Some (Inr qs)"
    and "questions example_after_upload = questions example_upload_store @ created"
    and "map questionNumber created = [1 .. int (length qs)]"
    and "map content created = map pq_content qs"
    and "example_created = created"
    by blast
  then have "questions example_after_upload = questions example_upload_store @ example_created"
    and "map questionNumber example_created = [1 .. int (length example_parsed)]"
    and "map content example_created = map pq_content example_parsed"
    by (simp_all add: example_parseCsv)
  moreover have "map questionNumber example_created = [1, 2]"
    by (simp add: example_created_def)
  ultimately show ?thesis
    using example_upload example_parseCsv by simp
qed

text \<open>
  C6, as stated: a successful upload that does not supply \<open>isDraft\<close> persists the
  assessment with \<open>isDraft = true\<close>. It persists \<open>false\<close>: the service writes
  \<open>Boolean(dto.isDraft)\<close>, and \<open>Boolean(undefined)\<close> is \<open>false\<close>.
\<close>

theorem uploadExamPaper_isDraft_counterexample:
  "up_isDraft example_dto = JSUndefined \<and>
   snd (uploadExamPaper example_env (Some example_file) example_dto example_upload_store) =
     Some (Inr (example_returned, example_created)) \<and>
   map isDraft
     (assessments
        (fst (uploadExamPaper example_env (Some example_file) example_dto example_upload_store))) =
     [True, False] \<and>
   map isDraft (assessments example_upload_store) = [True]"
  by (simp add: example_upload)
     (simp add: example_dto_def example_after_upload_def example_upload_store_def
        example_civil_paper_def example_uploaded_def)

text \<open>
  C6, amended: a successful upload adds one assessment, persisted with \<open>isDraft\<close> equal
  to the truthiness of the \<open>isDraft\<close> value supplied (\<open>false\<close> when none is supplied);
  the returned assessment shows the same value when no earlier assessment has the new key.
\<close>

theorem uploadExamPaper_isDraft:
  assumes "uploadExamPaper e file dto s = (s', Some (Inr (paper, returned)))"
  shows "\<exists>a. assessments s' = assessments s @ [a] \<and> a_id a = a_id paper \<and>
           isDraft a = Boolean (up_isDraft dto) \<and>
           ((\<forall>b \<in> set (assessments s). a_id b \<noteq> a_id paper) \<longrightarrow>
              isDraft paper = Boolean (up_isDraft dto))"
proof -
  from upload_success [OF assms] obtain f qs scheduled startMoment endMoment
    where tx: "upload_tx e dto qs scheduled startMoment endMoment s = Inr (s', (paper, returned))"
    by blast
  from upload_tx_success [OF tx] obtain a b
    where a: "a_id a = nextAssessmentId s" "isDraft a = Boolean (up_isDraft dto)"
      "assessments s' = assessments s @ [a]"
      and i: "a_id paper = nextAssessmentId s"
      and b: "findUnique_assessment s' (nextAssessmentId s) = Some b" "isDraft paper = isDraft b"
    by auto
  have "isDraft paper = Boolean (up_isDraft dto)"
    if "\<forall>b \<in> set (assessments s). a_id b \<noteq> a_id paper"
  proof -
    from that i a(1) have "find (\<lambda>b. a_id b = nextAssessmentId s) (assessments s @ [a]) = Some a"
      by (intro find_fresh_assessment) auto
    with b a show ?thesis by (simp add: findUnique_assessment_def)
  qed
  with a i show ?thesis by (intro exI [of _ a]) simp
qed

theorem uploadExamPaper_isDraft_witness:
  "uploadExamPaper example_env (Some example_file) example_dto example_upload_store =
     (example_after_upload, Some (Inr (example_returned, example_created))) \<and>
   assessments example_after_upload = assessments example_upload_store @ [example_uploaded] \<and>
   isDraft example_uploaded = Boolean (up_isDraft example_dto) \<and>
   isDraft example_returned = Boolean (up_isDraft example_dto) \<and>
   Boolean (up_isDraft example_dto) = False"
proof -
  have old: "\<forall>b \<in> set (assessments example_upload_store). a_id b \<noteq> a_id example_returned"
    by (simp add: example_upload_store_def example_civil_paper_def example_returned_def)
  from uploadExamPaper_isDraft [OF example_upload] old
  obtain a where "assessments example_after_upload = assessments example_upload_store @ [a]"
    and "isDraft a = Boolean (up_isDraft example_dto)"
    and "isDraft example_returned = Boolean (up_isDraft example_dto)"
    by blast
  moreover have "assessments example_after_upload =
                 assessments example_upload_store @ [example_uploaded]"
    by (simp add: example_after_upload_def example_upload_store_def)
  moreover have "Boolean (up_isDraft example_dto) = False"
    by (simp add: example_dto_def)
  ultimately show ?thesis using example_upload by simp
qed

section \<open>The view without answers\<close>

lemma insort_key_map_commute:
  "(\<And>x. k (g x) = k x) \<Longrightarrow> insort_key k (g x) (map g xs) = map g (insort_key k x xs)"
  by (induction xs) auto

lemma sort_key_map_commute:
  assumes "\<And>x. k (g x) = k x"
  shows "sort_key k (map g xs) = map g (sort_key k xs)"
  using assms by (induction xs) (simp_all add: insort_key_map_commute)

lemma findMany_questions_eraseAnswer:
  "map eraseAnswer (findMany_questions s aid) =
   sort_key questionNumber (filter (\<lambda>q. assessmentId q = aid) (map eraseAnswer (questions s)))"
proof -
  have k: "\<And>x. questionNumber (eraseAnswer x) = questionNumber x"
    by (simp add: eraseAnswer_def)
  have "filter (\<lambda>q. assessmentId q = aid) (map eraseAnswer (questions s)) =
        map eraseAnswer (filter (\<lambda>q. assessmentId q = aid) (questions s))"
    by (simp add: filter_map comp_def eraseAnswer_def)
  then show ?thesis
    by (simp add: findMany_questions_def sort_key_map_commute [of questionNumber eraseAnswer, OF k])
qed

lemma withoutAnswer_eraseAnswer: "withoutAnswer (eraseAnswer q) = withoutAnswer q"
  by (simp add: withoutAnswer_def eraseAnswer_def)

text \<open>
  C8: the records \<open>allQuestionsNoAnswer\<close> returns have no \<open>answer\<close> field, and two
  stores whose question rows differ at most in the stored answers give the same output.
\<close>

theorem allQuestionsNoAnswer_hides_answer:
  fixes s1 :: "'a store" and s2 :: "'b store"
  assumes "map eraseAnswer (questions s1) = map eraseAnswer (questions s2)"
  shows "allQuestionsNoAnswer aid s1 = allQuestionsNoAnswer aid s2"
proof -
  have e: "map eraseAnswer (findMany_questions s1 aid) = map eraseAnswer (findMany_questions s2 aid)"
    using assms by (simp only: findMany_questions_eraseAnswer)
  then have len: "length (findMany_questions s1 aid) = length (findMany_questions s2 aid)"
    by (rule map_eq_imp_length_eq)
  have "map withoutAnswer (findMany_questions s1 aid) =
        map (withoutAnswer \<circ> eraseAnswer) (findMany_questions s1 aid)"
    by (simp add: comp_def withoutAnswer_eraseAnswer)
  also have "\<dots> = map withoutAnswer (map eraseAnswer (findMany_questions s2 aid))"
    using e by (simp only: map_map [symmetric])
  also have "\<dots> = map withoutAnswer (findMany_questions s2 aid)"
    by (simp add: comp_def withoutAnswer_eraseAnswer)
  finally have m: "map withoutAnswer (findMany_questions s1 aid) =
                   map withoutAnswer (findMany_questions s2 aid)" .
  show ?thesis
    unfolding allQuestionsNoAnswer_def Let_def len m ..
qed

theorem allQuestionsNoAnswer_hides_answer_witness:
  "map eraseAnswer (questions example_store) =
     map eraseAnswer (questions example_store_other_answers) \<and>
   questions example_store \<noteq> questions example_store_other_answers \<and>
   allQuestionsNoAnswer 1 example_store = allQuestionsNoAnswer 1 example_store_other_answers"
proof -
  have e: "map eraseAnswer (questions example_store) =
           map eraseAnswer (questions example_store_other_answers)"
    by (simp add: example_store_other_answers_def example_store_def eraseAnswer_def)
  have n: "questions example_store \<noteq> questions example_store_other_answers"
    by (simp add: example_store_other_answers_def example_store_def example_question_def js_def)
  from allQuestionsNoAnswer_hides_answer [OF e, of 1] e n show ?thesis by simp
qed

section \<open>Publishing\<close>

lemma find_map_rows: "find P (map g xs) = map_option g (find (P \<circ> g) xs)"
  by (induction xs) auto

lemma find_unique_row:
  "distinct (map f xs) \<Longrightarrow> find (\<lambda>x. f x = k) xs = Some a \<Longrightarrow> b \<in> set xs \<Longrightarrow> f b = k \<Longrightarrow> b = a"
proof (induction xs)
  case Nil
  then show ?case by simp
next
  case (Cons x xs)
  show ?case
  proof (cases "f x = k")
    case True
    with Cons.prems have xa: "x = a" by simp
    from Cons.prems have "f x \<notin> f ` set xs" by simp
    with True Cons.prems(4) have "b \<notin> set xs" by (metis imageI)
    with Cons.prems(3) xa show ?thesis by simp
  next
    case False
    with Cons.prems Cons.IH show ?thesis by auto
  qed
qed

text \<open>
  C9: publishing an existing assessment succeeds and stores \<open>isDraft = false\<close>;
  publishing again succeeds with the same result and the same store; and when the
  assessment was already published the first call leaves the store as it was and returns
  the assessment unchanged.
\<close>

theorem publishExamPaper_idempotent:
  assumes u: "unique_ids s"
    and a: "findUnique_assessment s i = Some a"
    and p: "publishExamPaper i s = (s1, r1)"
  shows "r1 = Inr (a\<lparr>isDraft := False\<rparr>) \<and>
         findUnique_assessment s1 i = Some (a\<lparr>isDraft := False\<rparr>) \<and>
         publishExamPaper i s1 = (s1, r1) \<and>
         (\<not> isDraft a \<longrightarrow> s1 = s \<and> r1 = Inr a)"
proof -
  let ?g = "\<lambda>b. if a_id b = i then b\<lparr>isDraft := False\<rparr> else b"
  have f: "find (\<lambda>b. a_id b = i) (assessments s) = Some a"
    using a by (simp add: findUnique_assessment_def)
  have s1: "s1 = s\<lparr>assessments := map ?g (assessments s)\<rparr>"
    and r1: "r1 = Inr (a\<lparr>isDraft := False\<rparr>)"
    using p by (simp_all add: publishExamPaper_def a assessment_update_isDraft_def f)
  have ai: "a_id a = i" using f by (auto simp: find_Some_iff)
  have c: "(\<lambda>b. a_id b = i) \<circ> ?g = (\<lambda>b. a_id b = i)" by (auto simp: fun_eq_iff)
  have "find (\<lambda>b. a_id b = i) (map ?g (assessments s)) =
        map_option ?g (find (\<lambda>b. a_id b = i) (assessments s))"
    by (simp only: find_map_rows c)
  then have f1: "find (\<lambda>b. a_id b = i) (map ?g (assessments s)) = Some (a\<lparr>isDraft := False\<rparr>)"
    using ai by (simp add: f)
  have gg: "map ?g (map ?g (assessments s)) = map ?g (assessments s)"
    by simp
  have again: "publishExamPaper i s1 = (s1, r1)"
    unfolding s1 r1
    using f1 gg by (simp add: publishExamPaper_def findUnique_assessment_def assessment_update_isDraft_def)
  have noop: "s1 = s \<and> r1 = Inr a" if nd: "\<not> isDraft a"
  proof -
    have aa: "a\<lparr>isDraft := False\<rparr> = a" using nd by simp
    have d: "distinct (map a_id (assessments s))" using u by (simp add: unique_ids_def)
    have "map ?g (assessments s) = map (\<lambda>b. b) (assessments s)"
    proof (rule map_cong [OF refl])
      fix b assume b: "b \<in> set (assessments s)"
      show "?g b = b"
      proof (cases "a_id b = i")
        case True
        with find_unique_row [OF d f b] have "b = a" by simp
        with aa True show ?thesis by simp
      next
        case False
        then show ?thesis by simp
      qed
    qed
    then show ?thesis using s1 r1 aa by simp
  qed
  from r1 f1 again noop show ?thesis
    by (simp add: findUnique_assessment_def s1)
qed

theorem publishExamPaper_idempotent_witness:
  "unique_ids example_published_store \<and>
   findUnique_assessment example_published_store 1 = Some (example_paper\<lparr>isDraft := False\<rparr>) \<and>
   \<not> isDraft (example_paper\<lparr>isDraft := False\<rparr>) \<and>
   publishExamPaper 1 example_published_store =
     (example_published_store, Inr (example_paper\<lparr>isDraft := False\<rparr>)) \<and>
   publishExamPaper 1 example_store =
     (example_published_store, Inr (example_paper\<lparr>isDraft := False\<rparr>))"
proof -
  have u: "unique_ids example_published_store"
    by (simp add: unique_ids_def example_published_store_def example_store_def
        example_question_def)
  have a: "findUnique_assessment example_published_store 1 =
           Some (example_paper\<lparr>isDraft := False\<rparr>)"
    by (simp add: findUnique_assessment_def example_published_store_def example_paper_def)
  have p: "publishExamPaper 1 example_published_store =
           (example_published_store, Inr (example_paper\<lparr>isDraft := False\<rparr>))"
    by (simp add: publishExamPaper_def findUnique_assessment_def assessment_update_isDraft_def
        example_published_store_def example_paper_def)
  have p0: "publishExamPaper 1 example_store =
           (example_published_store, Inr (example_paper\<lparr>isDraft := False\<rparr>))"
    by (simp add: publishExamPaper_def findUnique_assessment_def assessment_update_isDraft_def
        example_published_store_def example_store_def example_paper_def)
  from publishExamPaper_idempotent [OF u a p] u a p p0 show ?thesis by simp
qed

section \<open>Updating a manual assessment\<close>

lemma questionManuals_create:
  "map row_input (filter (\<lambda>q. qm_assessmentId q = i) (questionManuals (create_questionManuals i xs s))) =
   map row_input (filter (\<lambda>q. qm_assessmentId q = i) (questionManuals s)) @ xs"
  by (induction xs arbitrary: s) (simp_all add: row_input_def)

lemma manualAssessments_create [simp]:
  "manualAssessments (create_questionManuals i xs s) = manualAssessments s"
  by (induction xs arbitrary: s) simp_all

lemma find_replaced_row:
  "find (\<lambda>b. k b = i) xs = Some a \<Longrightarrow> k d = i \<Longrightarrow>
   find (\<lambda>b. k b = i) (map (\<lambda>b. if k b = i then d else b) xs) = Some d"
  by (induction xs) (auto split: if_splits)

lemma example_findOne:
  "findOne 1 example_manual_store = Inr (example_manualAssessment, [example_questionManual])"
  by (simp add: findOne_def questionsOf_def example_manual_store_def example_manualAssessment_def
      example_questionManual_def)

lemma example_manual_update:
  "manual_update JSON_stringify_strings 1 example_update example_manual_store =
     (example_manual_store_updated, Inr (example_manualAssessment\<lparr>m_title := JSString (js ''Quiz 1b'')\<rparr>))"
  unfolding manual_update_def example_findOne
  by (simp add: manualAssessment_update_def Let_def
      example_update_def example_manual_store_def example_manual_store_updated_def
      example_manualAssessment_def example_questionDto_def JSON_stringify_strings_def
      js_or_def js_def quoteUnit_def)

text \<open>
  C7, as stated: after an update with a list of questions, the questions of the
  assessment are exactly the rows derived from the list. This fails for an assessment
  that already has a question: the nested \<open>create\<close> adds rows and removes none.
\<close>

theorem manual_update_replaces_questions_counterexample:
  "fst (manual_update JSON_stringify_strings 1 example_update example_manual_store) =
     example_manual_store_updated \<and>
   map row_input (questionsOf example_manual_store_updated 1) \<noteq>
     derived_rows JSON_stringify_strings [example_questionDto]"
  by (simp add: example_manual_update)
     (simp add: example_manual_store_updated_def questionsOf_def example_questionManual_def
        derived_rows_def)

text \<open>
  C7, amended: an update of an existing manual assessment with a list of questions adds
  the rows derived from the list (\<open>questions\<close> from \<open>questionText\<close>, \<open>options\<close>
  serialised, \<open>correctAnswer\<close>) after the rows the assessment already has, which stay
  as they are; the questions are exactly the derived rows only when there were none
  before.
\<close>

theorem manual_update_appends_questions:
  assumes "findOne i s = Inr (a, old)"
    and "dto_questions data = Some qs"
    and "manual_update stringify i data s = (s', Inr a')"
  shows "map row_input (questionsOf s' i) = map row_input old @ derived_rows stringify qs"
proof -
  from assms(1) have f: "find (\<lambda>a. m_id a = i) (manualAssessments s) = Some a"
    and old: "old = questionsOf s i"
    by (auto simp: findOne_def split: option.splits)
  from assms(3) show ?thesis
    unfolding manual_update_def assms(1) manualAssessment_update_def f
    by (auto simp: assms(2) Let_def derived_rows_def old questionsOf_def questionManuals_create)
qed

theorem manual_update_appends_questions_witness:
  "findOne 1 example_manual_store = Inr (example_manualAssessment, [example_questionManual]) \<and>
   dto_questions example_update = Some [example_questionDto] \<and>
   manual_update JSON_stringify_strings 1 example_update example_manual_store =
     (example_manual_store_updated,
      Inr (example_manualAssessment\<lparr>m_title := JSString (js ''Quiz 1b'')\<rparr>)) \<and>
   map row_input (questionsOf example_manual_store_updated 1) =
     map row_input [example_questionManual] @
     derived_rows JSON_stringify_strings [example_questionDto]"
proof -
  have q: "dto_questions example_update = Some [example_questionDto]"
    by (simp add: example_update_def)
  from manual_update_appends_questions [OF example_findOne q example_manual_update]
    example_findOne q example_manual_update
  show ?thesis by simp
qed

text \<open>
  C10: an update of an existing manual assessment succeeds, and each scalar field of the
  stored row is the supplied value when that value is truthy and the prior stored value
  when it is falsy (absent, \<open>null\<close>, \<open>0\<close>, \<open>NaN\<close>, the empty string, \<open>false\<close>):
  a falsy value is never written.
\<close>

theorem manual_update_falsy_keeps_prior:
  assumes "findOne i s = Inr (a, old)"
    and "manual_update stringify i data s = (s', r)"
  shows "\<exists>a'. r = Inr a' \<and>
           find (\<lambda>a. m_id a = i) (manualAssessments s') = Some a' \<and>
           m_title a' = (if Boolean (dto_title data) then dto_title data else m_title a) \<and>
           m_description a' =
             (if Boolean (dto_description data) then dto_description data else m_description a) \<and>
           m_courseId a' = (if Boolean (dto_courseId data) then dto_courseId data else m_courseId a) \<and>
           m_courseUnit a' =
             (if Boolean (dto_courseUnit data) then dto_courseUnit data else m_courseUnit a) \<and>
           m_courseUnitCode a' =
             (if Boolean (dto_courseUnitCode data) then dto_courseUnitCode data
              else m_courseUnitCode a) \<and>
           m_duration a' = (if Boolean (dto_duration data) then dto_duration data else m_duration a) \<and>
           m_scheduledDate a' =
             (if Boolean (dto_scheduledDate data) then dto_scheduledDate data
              else m_scheduledDate a) \<and>
           m_startTime a' =
             (if Boolean (dto_startTime data) then dto_startTime data else m_startTime a) \<and>
           m_endTime a' = (if Boolean (dto_endTime data) then dto_endTime data else m_endTime a) \<and>
           m_createdBy a' =
             (if Boolean (dto_createdBy data) then dto_createdBy data else m_createdBy a)"
proof -
  from assms(1) have f: "find (\<lambda>a. m_id a = i) (manualAssessments s) = Some a"
    by (auto simp: findOne_def split: option.splits)
  let ?g = "\<lambda>d b. if m_id b = i then d\<lparr>m_id := i\<rparr> else b"
  have fm: "find (\<lambda>a. m_id a = i) (map (?g d) (manualAssessments s)) = Some (d\<lparr>m_id := i\<rparr>)" for d
    using f by (rule find_replaced_row) simp
  let ?d = "\<lparr>m_id = i,
      m_title = js_or (dto_title data) (m_title a),
      m_description = js_or (dto_description data) (m_description a),
      m_courseId = js_or (dto_courseId data) (m_courseId a),
      m_courseUnit = js_or (dto_courseUnit data) (m_courseUnit a),
      m_courseUnitCode = js_or (dto_courseUnitCode data) (m_courseUnitCode a),
      m_duration = js_or (dto_duration data) (m_duration a),
      m_scheduledDate = js_or (dto_scheduledDate data) (m_scheduledDate a),
      m_startTime = js_or (dto_startTime data) (m_startTime a),
      m_endTime = js_or (dto_endTime data) (m_endTime a),
      m_createdBy = js_or (dto_createdBy data) (m_createdBy a)\<rparr>"
  from assms(2) have r: "r = Inr ?d"
    and s': "manualAssessments s' = map (?g ?d) (manualAssessments s)"
    unfolding manual_update_def assms(1) manualAssessment_update_def f
    by (auto simp: Let_def)
  have "find (\<lambda>a. m_id a = i) (manualAssessments s') = Some ?d"
    unfolding s' using fm [of ?d] by simp
  with r show ?thesis
    by (simp add: js_or_def)
qed

theorem manual_update_falsy_keeps_prior_witness:
  "findOne 1 example_manual_store = Inr (example_manualAssessment, [example_questionManual]) \<and>
   dto_duration example_update = JSNumber 0 \<and> dto_description example_update = JSString [] \<and>
   (\<exists>s' a'. manual_update JSON_stringify_strings 1 example_update example_manual_store =
              (s', Inr a') \<and>
            m_duration a' = m_duration example_manualAssessment \<and>
            m_description a' = m_description example_manualAssessment \<and>
            m_title a' = dto_title example_update)"
proof -
  have d: "dto_duration example_update = JSNumber 0" "dto_description example_update = JSString []"
    "Boolean (dto_title example_update)"
    by (simp_all add: example_update_def js_def)
  from manual_update_falsy_keeps_prior [OF example_findOne example_manual_update]
  obtain a' where "Inr (example_manualAssessment\<lparr>m_title := JSString (js ''Quiz 1b'')\<rparr>) = Inr a'"
    and "m_duration a' = m_duration example_manualAssessment"
    and "m_description a' = m_description example_manualAssessment"
    and "m_title a' = dto_title example_update"
    using d by auto
  with example_findOne example_manual_update d show ?thesis by auto
qed

end
